theory Spec2Isabelle
  imports Complex_Main "HOL-Library.Word"
begin

section \<open>Scalability descriptors (svc.h, svc.cpp)\<close>

text \<open>
  \<^verbatim>\<open>struct ScalabilityConfig\<close>: \<^verbatim>\<open>ratioH\<close> is a float that only ever holds 1.5 or 2.0,
  kept here as a rational.
\<close>

record ScalabilityConfig =
  spatialLayers :: int
  temporalLayers :: int
  isSimulcast :: bool
  ratioH :: rat
  hasKey :: bool
  hasShift :: bool

definition is_digit :: "char \<Rightarrow> bool" where
  "is_digit c = (c \<in> set ''0123456789'')"

text \<open>\<^verbatim>\<open>std::stoi\<close> on a one-character string that holds a decimal digit.\<close>

definition stoi_digit :: "char \<Rightarrow> int" where
  "stoi_digit c = int (of_char c) - 48"

text \<open>
  An optional literal group \<^verbatim>\<open>(g)?\<close> of the pattern: greedy, and since the three optional
  groups of the pattern start with different characters no backtracking can change the outcome.
\<close>

definition opt_group :: "string \<Rightarrow> string \<Rightarrow> bool \<times> string" where
  "opt_group g s = (if take (length g) s = g then (True, drop (length g) s) else (False, s))"

text \<open>
  \<^verbatim>\<open>std::regex_match(mode, match, "([LS])(\\d)T(\\d)(h)?(_KEY)?(_SHIFT)?")\<close>: the whole
  string must match. The result holds the groups 1 to 3 and whether groups 4 to 6 matched.
\<close>

fun svc_regex_match :: "string \<Rightarrow> (char \<times> char \<times> char \<times> bool \<times> bool \<times> bool) option" where
  "svc_regex_match (c1 # c2 # t # c3 # rest) =
     (if (c1 = CHR ''L'' \<or> c1 = CHR ''S'') \<and> is_digit c2 \<and> t = CHR ''T'' \<and> is_digit c3 then
        (case opt_group ''h'' rest of (h, r1) \<Rightarrow>
         case opt_group ''_KEY'' r1 of (k, r2) \<Rightarrow>
         case opt_group ''_SHIFT'' r2 of (sh, r3) \<Rightarrow>
           if r3 = [] then Some (c1, c2, c3, h, k, sh) else None)
      else None)"
| "svc_regex_match _ = None"

definition default_ScalabilityConfig :: ScalabilityConfig where
  "default_ScalabilityConfig =
     \<lparr>spatialLayers = 1, temporalLayers = 1, isSimulcast = False, ratioH = 2,
      hasKey = False, hasShift = False\<rparr>"

definition parseScalabilityMode :: "string \<Rightarrow> ScalabilityConfig" where
  "parseScalabilityMode mode =
     (if mode = [] then default_ScalabilityConfig
      else case svc_regex_match mode of
             Some (c1, c2, c3, h, k, sh) \<Rightarrow>
               \<lparr>spatialLayers = stoi_digit c2, temporalLayers = stoi_digit c3,
                isSimulcast = (c1 = CHR ''S''), ratioH = (if h then 3 / 2 else 2),
                hasKey = k, hasShift = sh\<rparr>
           | None \<Rightarrow> default_ScalabilityConfig)"

definition isScalabilityModeSupported :: "string \<Rightarrow> bool" where
  "isScalabilityModeSupported mode =
     (if mode = [] then True
      else let config = parseScalabilityMode mode in
        if spatialLayers config > 1 \<or> isSimulcast config then False
        else if temporalLayers config < 1 \<or> temporalLayers config > 3 then False
        else True)"

section \<open>The synchronous encoder session (encoder.cpp)\<close>

subsection \<open>Values shared with the codec engine\<close>

text \<open>
  Modelled from the spec: hw\_accel.h is not among the sources. The spec's accelerator
  preference ("prefer hardware", "no preference", "prefer software") and the accelerator type
  with its distinguished value \<^verbatim>\<open>None\<close> are the enumerations \<^verbatim>\<open>HWAccel::Preference\<close> and
  \<^verbatim>\<open>HWAccel::Type\<close> that encoder.cpp names.
\<close>

datatype Preference = NoPreference | PreferHardware | PreferSoftware

datatype HWType = HW_None | VideoToolbox | NVENC | QSV | VAAPI

datatype AVPixelFormat =
  AV_PIX_FMT_NONE | AV_PIX_FMT_YUV420P | AV_PIX_FMT_YUVA420P | AV_PIX_FMT_NV12
  | AV_PIX_FMT_VAAPI | AV_PIX_FMT_RGBA | AV_PIX_FMT_BGRA | AV_PIX_FMT_OTHER nat

text \<open>
  \<^verbatim>\<open>HWAccel::EncoderInfo\<close> as encoder.cpp reads it. A \<^verbatim>\<open>const AVCodec*\<close> is identified by the
  codec's name, \<^verbatim>\<open>None\<close> is the null pointer.
\<close>

record EncoderInfo =
  ei_codec :: "string option"
  ei_hwType :: HWType
  ei_inputFormat :: AVPixelFormat
  ei_requiresHWFrames :: bool

type_synonym handle = nat

datatype optval = OptStr string | OptInt int

text \<open>A write to the codec context: a struct field or a private option (\<^verbatim>\<open>av_opt_set\<close>).\<close>

datatype ctx_write = SetField string optval | SetOpt string optval

record AVFrame =
  fr_format :: AVPixelFormat
  fr_width :: int
  fr_height :: int
  fr_pts :: int
  fr_key :: bool
  fr_data :: "nat list"

record AVPacket =
  pkt_data :: "nat list"
  pkt_key :: bool
  pkt_pts :: int
  pkt_duration :: int
  pkt_alpha_side_data :: "nat list"

text \<open>
  An \<^verbatim>\<open>AVCodecContext\<close>. The fields the session reads back (\<^verbatim>\<open>bit_rate\<close>, \<^verbatim>\<open>pix_fmt\<close>)
  are fields here; every other field write and option is kept, in program order, in
  \<open>cc_writes\<close>. The last four fields are the engine's own state behind the send/receive
  interface: the outputs ready to be received (each with the return code
  \<^verbatim>\<open>avcodec_receive_packet\<close> gives for it), the outputs the engine still buffers, and whether
  the engine has been put into draining mode by a null frame.
\<close>

record AVCodecContext =
  cc_codec :: string
  cc_bit_rate :: int
  cc_pix_fmt :: AVPixelFormat
  cc_writes :: "ctx_write list"
  cc_extradata :: "nat list"
  cc_hw_device_ctx :: "handle option"
  cc_hw_frames_ctx :: "handle option"
  cc_opened :: bool
  cc_ready :: "(int \<times> AVPacket) list"
  cc_held :: "(int \<times> AVPacket) list"
  cc_draining :: bool

definition AVERROR_EAGAIN :: int where "AVERROR_EAGAIN = - 11"

definition AVERROR_EOF :: int where "AVERROR_EOF = - 541478725"

text \<open>
  The external collaborators of the session, as parameters: the accelerator selection of
  hw\_accel.cpp (not among the sources) and the codec engine (libavcodec), of which only the
  behaviour visible through the calls of encoder.cpp is fixed.
\<close>

record env =
  parsePreference :: "string \<Rightarrow> Preference"
  selectEncoder :: "string \<Rightarrow> Preference \<Rightarrow> int \<Rightarrow> int \<Rightarrow> EncoderInfo"
  find_encoder_by_name :: "string \<Rightarrow> string option"
  alloc_context_ok :: "string \<Rightarrow> bool"
  createHWDeviceContext_ok :: "HWType \<Rightarrow> bool"
  hwframe_ctx_alloc_ok :: bool
  hwframe_ctx_init_ret :: int
  open2_ret :: "AVCodecContext \<Rightarrow> int"
  open2_extradata :: "AVCodecContext \<Rightarrow> nat list"
  av_strerror :: "int \<Rightarrow> string"
  frame_get_buffer_ret :: "AVFrame \<Rightarrow> int"
  sws_getContext_ok :: "AVFrame \<Rightarrow> bool"
  convert_frame :: "AVFrame \<Rightarrow> AVFrame \<Rightarrow> AVFrame"
  enc_submit :: "AVCodecContext \<Rightarrow> AVFrame \<Rightarrow> int \<times> (int \<times> AVPacket) list \<times> (int \<times> AVPacket) list"
  encoder_flush_cap :: "string \<Rightarrow> bool"

text \<open>Every call into the engine is logged, so that what a method touched can be read off.\<close>

datatype engine_call =
    Call_selectEncoder string Preference
  | Call_find_encoder_by_name string
  | Call_alloc_context3 string "handle option"
  | Call_open2 handle int
  | Call_free_context handle
  | Call_createHWDeviceContext HWType "handle option"
  | Call_buffer_ref handle
  | Call_buffer_unref handle
  | Call_hwframe_ctx_alloc handle "handle option"
  | Call_hwframe_ctx_init handle int
  | Call_send_frame handle "AVFrame option" int
  | Call_receive_packet handle int
  | Call_flush_buffers handle
  | Call_sws_getContext bool
  | Call_sws_freeContext

text \<open>
  The engine's side of the heap: the codec contexts that are allocated and not yet freed,
  the outstanding references to accelerator buffers (one entry per reference), and the log.
\<close>

record engine =
  next_handle :: handle
  contexts :: "(handle \<times> AVCodecContext) list"
  buffer_refs :: "handle list"
  calls :: "engine_call list"

text \<open>What the session hands to its two JavaScript callbacks, and the flush callback.\<close>

datatype callback =
    OutputChunk "nat list" bool int int "nat list option" "nat list option"
  | ErrorCallback string
  | FlushCallback

text \<open>How a native method ends: it returns, throws a JavaScript exception, or dereferences null.\<close>

datatype outcome = Returned | Threw string | NullDeref

text \<open>
  The members of \<^verbatim>\<open>VideoEncoderNative\<close>, with the engine and the callback log beside them.
  A name cannot end in an underscore here, so the member \<^verbatim>\<open>x_\<close> of the class is \<open>m_x\<close>.
\<close>

record VideoEncoderNative =
  m_codecCtx :: "handle option"
  m_codec :: "string option"
  m_swsCtx :: bool
  m_hwType :: HWType
  m_hwDeviceCtx :: "handle option"
  m_hwFramesCtx :: "handle option"
  m_hwInputFormat :: AVPixelFormat
  m_configured :: bool
  m_avcAnnexB :: bool
  m_width :: int
  m_height :: int
  m_bitrateMode :: string
  m_codecName :: string
  m_bitrate :: int
  m_alpha :: bool
  m_scalabilityMode :: string
  m_temporalLayers :: int
  eng :: engine
  emitted :: "callback list"

definition new_engine :: engine where
  "new_engine = \<lparr>next_handle = 0, contexts = [], buffer_refs = [], calls = []\<rparr>"

text \<open>The constructor's member initialisers.\<close>

definition new_VideoEncoderNative :: "engine \<Rightarrow> VideoEncoderNative" where
  "new_VideoEncoderNative e =
     \<lparr>m_codecCtx = None, m_codec = None, m_swsCtx = False, m_hwType = HW_None,
      m_hwDeviceCtx = None, m_hwFramesCtx = None, m_hwInputFormat = AV_PIX_FMT_NONE,
      m_configured = False, m_avcAnnexB = True, m_width = 0, m_height = 0,
      m_bitrateMode = ''variable'', m_codecName = [], m_bitrate = 2000000, m_alpha = False,
      m_scalabilityMode = [], m_temporalLayers = 1, eng = e, emitted = []\<rparr>"

subsection \<open>The engine calls that encoder.cpp makes\<close>

definition AVERROR_EINVAL :: int where "AVERROR_EINVAL = - 22"

definition log_call :: "engine_call \<Rightarrow> engine \<Rightarrow> engine" where
  "log_call c e = e\<lparr>calls := calls e @ [c]\<rparr>"

definition blank_context :: "string \<Rightarrow> AVCodecContext" where
  "blank_context codec =
     \<lparr>cc_codec = codec, cc_bit_rate = 0, cc_pix_fmt = AV_PIX_FMT_NONE, cc_writes = [],
      cc_extradata = [], cc_hw_device_ctx = None, cc_hw_frames_ctx = None, cc_opened = False,
      cc_ready = [], cc_held = [], cc_draining = False\<rparr>"

definition lookup_ctx :: "handle \<Rightarrow> engine \<Rightarrow> AVCodecContext option" where
  "lookup_ctx h e = map_of (contexts e) h"

definition ctx_update :: "handle \<Rightarrow> (AVCodecContext \<Rightarrow> AVCodecContext) \<Rightarrow> engine \<Rightarrow> engine" where
  "ctx_update h f e =
     e\<lparr>contexts := map (\<lambda>(k, c). if k = h then (k, f c) else (k, c)) (contexts e)\<rparr>"

definition avcodec_alloc_context3 :: "env \<Rightarrow> string \<Rightarrow> engine \<Rightarrow> handle option \<times> engine" where
  "avcodec_alloc_context3 env codec e =
     (if alloc_context_ok env codec then
        (Some (next_handle e),
         e\<lparr>next_handle := Suc (next_handle e),
           contexts := contexts e @ [(next_handle e, blank_context codec)],
           calls := calls e @ [Call_alloc_context3 codec (Some (next_handle e))]\<rparr>)
      else (None, log_call (Call_alloc_context3 codec None) e))"

definition av_buffer_ref :: "handle \<Rightarrow> engine \<Rightarrow> engine" where
  "av_buffer_ref b e = e\<lparr>buffer_refs := buffer_refs e @ [b], calls := calls e @ [Call_buffer_ref b]\<rparr>"

definition av_buffer_unref :: "handle \<Rightarrow> engine \<Rightarrow> engine" where
  "av_buffer_unref b e =
     e\<lparr>buffer_refs := remove1 b (buffer_refs e), calls := calls e @ [Call_buffer_unref b]\<rparr>"

definition drop_ref :: "handle option \<Rightarrow> handle list \<Rightarrow> handle list" where
  "drop_ref b rs = (case b of None \<Rightarrow> rs | Some r \<Rightarrow> remove1 r rs)"

text \<open>
  \<^verbatim>\<open>avcodec_free_context\<close> frees the context and with it the references the context itself
  holds on accelerator buffers.
\<close>

definition avcodec_free_context :: "handle \<Rightarrow> engine \<Rightarrow> engine" where
  "avcodec_free_context h e =
     (case lookup_ctx h e of
        None \<Rightarrow> log_call (Call_free_context h) e
      | Some c \<Rightarrow>
          e\<lparr>contexts := filter (\<lambda>(k, c). k \<noteq> h) (contexts e),
            buffer_refs := drop_ref (cc_hw_frames_ctx c) (drop_ref (cc_hw_device_ctx c) (buffer_refs e)),
            calls := calls e @ [Call_free_context h]\<rparr>)"

definition createHWDeviceContext :: "env \<Rightarrow> HWType \<Rightarrow> engine \<Rightarrow> handle option \<times> engine" where
  "createHWDeviceContext env ty e =
     (if createHWDeviceContext_ok env ty then
        (Some (next_handle e),
         e\<lparr>next_handle := Suc (next_handle e),
           buffer_refs := buffer_refs e @ [next_handle e],
           calls := calls e @ [Call_createHWDeviceContext ty (Some (next_handle e))]\<rparr>)
      else (None, log_call (Call_createHWDeviceContext ty None) e))"

definition av_hwframe_ctx_alloc :: "env \<Rightarrow> handle \<Rightarrow> engine \<Rightarrow> handle option \<times> engine" where
  "av_hwframe_ctx_alloc env dev e =
     (if hwframe_ctx_alloc_ok env then
        (Some (next_handle e),
         e\<lparr>next_handle := Suc (next_handle e),
           buffer_refs := buffer_refs e @ [next_handle e],
           calls := calls e @ [Call_hwframe_ctx_alloc dev (Some (next_handle e))]\<rparr>)
      else (None, log_call (Call_hwframe_ctx_alloc dev None) e))"

definition av_hwframe_ctx_init :: "env \<Rightarrow> handle \<Rightarrow> engine \<Rightarrow> int \<times> engine" where
  "av_hwframe_ctx_init env f e =
     (hwframe_ctx_init_ret env, log_call (Call_hwframe_ctx_init f (hwframe_ctx_init_ret env)) e)"

definition avcodec_open2 :: "env \<Rightarrow> handle \<Rightarrow> engine \<Rightarrow> int \<times> engine" where
  "avcodec_open2 env h e =
     (case lookup_ctx h e of
        None \<Rightarrow> (AVERROR_EINVAL, log_call (Call_open2 h AVERROR_EINVAL) e)
      | Some c \<Rightarrow>
          if open2_ret env c < 0 then (open2_ret env c, log_call (Call_open2 h (open2_ret env c)) e)
          else (open2_ret env c,
                log_call (Call_open2 h (open2_ret env c))
                  (ctx_update h (\<lambda>c. c\<lparr>cc_opened := True, cc_extradata := open2_extradata env c\<rparr>) e)))"

text \<open>
  The send/receive interface of an encoder. A null frame puts the engine into draining mode,
  in which what it buffered becomes receivable; once draining, every further send is answered
  \<^verbatim>\<open>AVERROR_EOF\<close>, and the mode is left only through \<^verbatim>\<open>avcodec_flush_buffers\<close> on a codec
  that supports flushing its encoder (or by opening a new context).
\<close>

definition avcodec_send_frame :: "env \<Rightarrow> handle \<Rightarrow> AVFrame option \<Rightarrow> engine \<Rightarrow> int \<times> engine" where
  "avcodec_send_frame env h fo e =
     (case lookup_ctx h e of
        None \<Rightarrow> (AVERROR_EINVAL, log_call (Call_send_frame h fo AVERROR_EINVAL) e)
      | Some c \<Rightarrow>
          if \<not> cc_opened c then (AVERROR_EINVAL, log_call (Call_send_frame h fo AVERROR_EINVAL) e)
          else if cc_draining c then (AVERROR_EOF, log_call (Call_send_frame h fo AVERROR_EOF) e)
          else (case fo of
                  None \<Rightarrow>
                    (0, log_call (Call_send_frame h fo 0)
                          (ctx_update h (\<lambda>c. c\<lparr>cc_ready := cc_ready c @ cc_held c, cc_held := [],
                                                 cc_draining := True\<rparr>) e))
                | Some f \<Rightarrow>
                    (case enc_submit env c f of (ret, ready, held) \<Rightarrow>
                       if ret < 0 then (ret, log_call (Call_send_frame h fo ret) e)
                       else (ret, log_call (Call_send_frame h fo ret)
                                    (ctx_update h (\<lambda>c. c\<lparr>cc_ready := cc_ready c @ ready,
                                                           cc_held := held\<rparr>) e)))))"

definition blank_packet :: AVPacket where
  "blank_packet = \<lparr>pkt_data = [], pkt_key = False, pkt_pts = 0, pkt_duration = 0,
                    pkt_alpha_side_data = []\<rparr>"

definition avcodec_receive_packet :: "handle \<Rightarrow> engine \<Rightarrow> int \<times> AVPacket \<times> engine" where
  "avcodec_receive_packet h e =
     (case lookup_ctx h e of
        None \<Rightarrow> (AVERROR_EINVAL, blank_packet, log_call (Call_receive_packet h AVERROR_EINVAL) e)
      | Some c \<Rightarrow>
          (case cc_ready c of
             [] \<Rightarrow>
               (if cc_draining c
                then (AVERROR_EOF, blank_packet, log_call (Call_receive_packet h AVERROR_EOF) e)
                else (AVERROR_EAGAIN, blank_packet, log_call (Call_receive_packet h AVERROR_EAGAIN) e))
           | (ret, pkt) # rest \<Rightarrow>
               (ret, pkt, log_call (Call_receive_packet h ret)
                            (ctx_update h (\<lambda>c. c\<lparr>cc_ready := rest\<rparr>) e))))"

definition avcodec_flush_buffers :: "env \<Rightarrow> handle \<Rightarrow> engine \<Rightarrow> engine" where
  "avcodec_flush_buffers env h e =
     log_call (Call_flush_buffers h)
       (ctx_update h (\<lambda>c. if encoder_flush_cap env (cc_codec c)
                           then c\<lparr>cc_ready := [], cc_held := [], cc_draining := False\<rparr> else c) e)"



definition open_handles :: "engine \<Rightarrow> handle list" where
  "open_handles e = map fst (filter (\<lambda>(h, c). cc_opened c) (contexts e))"

definition ready_len :: "handle \<Rightarrow> engine \<Rightarrow> nat" where
  "ready_len h e = (case lookup_ctx h e of None \<Rightarrow> 0 | Some c \<Rightarrow> length (cc_ready c))"

subsection \<open>Numbers and strings of the configuration\<close>

text \<open>\<^verbatim>\<open>static_cast<int>\<close> of a 64-bit integer: the low 32 bits, read as signed.\<close>

definition to_int32 :: "int \<Rightarrow> int" where
  "to_int32 x = sint (word_of_int x :: 32 word)"

text \<open>Division of C++ integers truncates towards zero.\<close>

definition c_div :: "int \<Rightarrow> int \<Rightarrow> int" where
  "c_div a b = sgn a * sgn b * (\<bar>a\<bar> div \<bar>b\<bar>)"

text \<open>
  IEEE 754 binary64 arithmetic, as far as \<^verbatim>\<open>bitrate_ * 0.6 / 1000\<close> needs it: a double is
  the rational it denotes, and every operation rounds its exact result to 53 significant bits,
  ties to even. Overflow and subnormal numbers are left out; the values below stay far inside
  the normal range. \<open>bit_length n\<close> is the number of binary digits of \<open>n\<close>.
\<close>

fun bit_length :: "nat \<Rightarrow> nat" where
  "bit_length n = (if n = 0 then 0 else Suc (bit_length (n div 2)))"

declare bit_length.simps [simp del]

definition pow2 :: "int \<Rightarrow> rat" where
  "pow2 e = (if 0 \<le> e then 2 ^ nat e else 1 / 2 ^ nat (- e))"

text \<open>The exponent \<open>e\<close> with \<open>2^52 \<le> |x| / 2^e < 2^53\<close>, for \<open>x \<noteq> 0\<close>.\<close>

definition dbl_exponent :: "rat \<Rightarrow> int" where
  "dbl_exponent x =
     (if 1 \<le> \<bar>x\<bar> then int (bit_length (nat \<lfloor>\<bar>x\<bar>\<rfloor>)) - 53
      else - int (bit_length (nat (\<lceil>1 / \<bar>x\<bar>\<rceil> - 1))) - 52)"

definition round_ties_even :: "rat \<Rightarrow> int" where
  "round_ties_even y =
     (if y - of_int \<lfloor>y\<rfloor> < 1 / 2 then \<lfloor>y\<rfloor>
      else if 1 / 2 < y - of_int \<lfloor>y\<rfloor> then \<lfloor>y\<rfloor> + 1
      else if even \<lfloor>y\<rfloor> then \<lfloor>y\<rfloor> else \<lfloor>y\<rfloor> + 1)"

definition dbl :: "rat \<Rightarrow> rat" where
  "dbl x =
     (if x = 0 then 0
      else of_int (round_ties_even (x / pow2 (dbl_exponent x))) * pow2 (dbl_exponent x))"

text \<open>\<^verbatim>\<open>static_cast<int>\<close> of a double truncates towards zero.\<close>

definition double_to_int :: "rat \<Rightarrow> int" where
  "double_to_int x = (if 0 \<le> x then \<lfloor>x\<rfloor> else \<lceil>x\<rceil>)"

text \<open>\<^verbatim>\<open>static_cast<int>(bitrate_ * f / 1000)\<close> for a decimal literal \<open>f\<close> of type double.\<close>

definition scaled_kbps :: "int \<Rightarrow> rat \<Rightarrow> int" where
  "scaled_kbps bitrate f = double_to_int (dbl (dbl (dbl (of_int bitrate) * dbl f) / dbl 1000))"

text \<open>\<^verbatim>\<open>s.find(sub) != std::string::npos\<close>\<close>

fun str_contains :: "string \<Rightarrow> string \<Rightarrow> bool" where
  "str_contains [] sub = (sub = [])"
| "str_contains (c # cs) sub = (take (length sub) (c # cs) = sub \<or> str_contains cs sub)"

text \<open>\<^verbatim>\<open>%d\<close> of \<^verbatim>\<open>snprintf\<close>.\<close>

function show_nat :: "nat \<Rightarrow> string" where
  "show_nat n =
     (if n < 10 then [''0123456789'' ! n] else show_nat (n div 10) @ [''0123456789'' ! (n mod 10)])"
  by pat_completeness auto
termination
  by (relation "measure id") auto

declare show_nat.simps [simp del]

definition show_int :: "int \<Rightarrow> string" where
  "show_int i = (if i < 0 then CHR ''-'' # show_nat (nat (- i)) else show_nat (nat i))"

subsection \<open>The configuration object\<close>

text \<open>
  The JavaScript object handed to \<^verbatim>\<open>configure\<close>. An optional property is \<open>None\<close> when
  \<^verbatim>\<open>config.Has\<close> is false (or, where the source also tests the type, when the value is not of
  that type). Numbers are already converted (\<^verbatim>\<open>Int32Value\<close>, \<^verbatim>\<open>Int64Value\<close>).
\<close>

record ColorSpaceInit =
  cs_primaries :: "string option"
  cs_transfer :: "string option"
  cs_matrix :: "string option"
  cs_fullRange :: "bool option"

record EncoderConfig =
  cfg_codec :: string
  cfg_width :: int
  cfg_height :: int
  cfg_hardwareAcceleration :: "string option"
  cfg_bitrate :: "int option"
  cfg_bitrateMode :: "string option"
  cfg_framerate :: "int option"
  cfg_alpha :: "string option"
  cfg_colorSpace :: "ColorSpaceInit option"
  cfg_profile :: "int option"
  cfg_avcFormat :: "string option"
  cfg_latencyMode :: "string option"
  cfg_scalabilityMode :: "string option"

subsection \<open>color.cpp\<close>

definition parsePrimaries :: "string \<Rightarrow> string" where
  "parsePrimaries primaries =
     (case map_of
        [(''bt709'', ''AVCOL_PRI_BT709''), (''bt470bg'', ''AVCOL_PRI_BT470BG''),
         (''smpte170m'', ''AVCOL_PRI_SMPTE170M''), (''bt2020'', ''AVCOL_PRI_BT2020''),
         (''smpte432'', ''AVCOL_PRI_SMPTE432''), (''smpte-rp-431'', ''AVCOL_PRI_SMPTE431'')]
        primaries of
        Some v \<Rightarrow> v | None \<Rightarrow> ''AVCOL_PRI_UNSPECIFIED'')"

definition parseTransfer :: "string \<Rightarrow> string" where
  "parseTransfer transfer =
     (case map_of
        [(''bt709'', ''AVCOL_TRC_BT709''), (''smpte170m'', ''AVCOL_TRC_SMPTE170M''),
         (''iec61966-2-1'', ''AVCOL_TRC_IEC61966_2_1''), (''linear'', ''AVCOL_TRC_LINEAR''),
         (''pq'', ''AVCOL_TRC_SMPTE2084''), (''hlg'', ''AVCOL_TRC_ARIB_STD_B67''),
         (''smpte2084'', ''AVCOL_TRC_SMPTE2084''), (''arib-std-b67'', ''AVCOL_TRC_ARIB_STD_B67''),
         (''gamma22'', ''AVCOL_TRC_GAMMA22''), (''gamma28'', ''AVCOL_TRC_GAMMA28'')]
        transfer of
        Some v \<Rightarrow> v | None \<Rightarrow> ''AVCOL_TRC_UNSPECIFIED'')"

definition parseMatrix :: "string \<Rightarrow> string" where
  "parseMatrix matrix =
     (case map_of
        [(''rgb'', ''AVCOL_SPC_RGB''), (''bt709'', ''AVCOL_SPC_BT709''),
         (''bt470bg'', ''AVCOL_SPC_BT470BG''), (''smpte170m'', ''AVCOL_SPC_SMPTE170M''),
         (''bt2020-ncl'', ''AVCOL_SPC_BT2020_NCL''), (''bt2020-cl'', ''AVCOL_SPC_BT2020_CL''),
         (''smpte240m'', ''AVCOL_SPC_SMPTE240M''), (''ycgco'', ''AVCOL_SPC_YCGCO'')]
        matrix of
        Some v \<Rightarrow> v | None \<Rightarrow> ''AVCOL_SPC_UNSPECIFIED'')"

subsection \<open>VideoEncoderNative::configureEncoderOptions\<close>

definition do_writes :: "ctx_write list \<Rightarrow> AVCodecContext \<Rightarrow> AVCodecContext" where
  "do_writes ws c = c\<lparr>cc_writes := cc_writes c @ ws\<rparr>"

definition encoder_option_writes :: "string \<Rightarrow> bool \<Rightarrow> int \<Rightarrow> ctx_write list" where
  "encoder_option_writes encoderName isRealtime bit_rate =
     (if isRealtime
      then [SetField ''thread_count'' (OptInt 1), SetField ''thread_type'' (OptInt 0),
            SetField ''delay'' (OptInt 0), SetField ''max_b_frames'' (OptInt 0), SetField ''refs'' (OptInt 1)]
      else []) @
     (if encoderName = ''libx264'' then
        (if isRealtime
         then [SetOpt ''preset'' (OptStr ''ultrafast''), SetOpt ''tune'' (OptStr ''zerolatency''),
               SetOpt ''rc-lookahead'' (OptStr ''0''), SetOpt ''sync-lookahead'' (OptStr ''0''),
               SetOpt ''intra-refresh'' (OptStr ''1'')]
         else [SetOpt ''preset'' (OptStr ''medium'')])
      else if encoderName = ''h264_videotoolbox'' \<or> encoderName = ''hevc_videotoolbox'' then
        [SetOpt ''realtime'' (OptStr (if isRealtime then ''1'' else ''0'')),
         SetOpt ''allow_sw'' (OptStr ''1'')]
      else if encoderName = ''h264_nvenc'' \<or> encoderName = ''hevc_nvenc'' then
        (if isRealtime
         then [SetOpt ''preset'' (OptStr ''p1''), SetOpt ''tune'' (OptStr ''ll''),
               SetOpt ''zerolatency'' (OptStr ''1''), SetOpt ''rc-lookahead'' (OptStr ''0'')]
         else [SetOpt ''preset'' (OptStr ''p4'')]) @
        [SetOpt ''rc'' (OptStr ''cbr'')]
      else if encoderName = ''h264_qsv'' \<or> encoderName = ''hevc_qsv'' then
        (if isRealtime
         then [SetOpt ''preset'' (OptStr ''veryfast''), SetOpt ''low_delay_brc'' (OptStr ''1''),
               SetOpt ''look_ahead'' (OptStr ''0'')]
         else [])
      else if encoderName = ''libvpx'' \<or> encoderName = ''libvpx-vp9'' then
        (if bit_rate > 0 then [SetOpt ''crf'' (OptInt 10), SetOpt ''b'' (OptInt bit_rate)] else []) @
        (if isRealtime
         then [SetOpt ''cpu-used'' (OptInt 8), SetOpt ''lag-in-frames'' (OptInt 0),
               SetOpt ''deadline'' (OptStr ''realtime'')]
         else [SetOpt ''cpu-used'' (OptInt 4)])
      else if encoderName = ''libx265'' then
        [SetOpt ''preset'' (OptStr (if isRealtime then ''ultrafast'' else ''medium''))] @
        (if isRealtime then [SetOpt ''tune'' (OptStr ''zerolatency'')] else [])
      else if encoderName = ''libaom-av1'' \<or> encoderName = ''libsvtav1'' then
        (if isRealtime
         then [SetOpt ''cpu-used'' (OptInt 10), SetOpt ''lag-in-frames'' (OptInt 0),
               SetOpt ''usage'' (OptStr ''realtime'')]
         else [SetOpt ''cpu-used'' (OptInt 6)])
      else [])"

definition configureEncoderOptions :: "string \<Rightarrow> string \<Rightarrow> AVCodecContext \<Rightarrow> AVCodecContext" where
  "configureEncoderOptions encoderName latencyMode c =
     do_writes (encoder_option_writes encoderName (latencyMode = ''realtime'') (cc_bit_rate c)) c"

subsection \<open>VideoEncoderNative::Configure\<close>

definition upd_ctx :: "handle \<Rightarrow> (AVCodecContext \<Rightarrow> AVCodecContext) \<Rightarrow> VideoEncoderNative \<Rightarrow> VideoEncoderNative" where
  "upd_ctx h f s = s\<lparr>eng := ctx_update h f (eng s)\<rparr>"

text \<open>
  Lines 159 to 190: the dimensions are stored, the preference parsed and an encoder selected.
  On success the result carries the preference, the selection and the codec chosen.
\<close>

definition Configure_select ::
  "env \<Rightarrow> EncoderConfig \<Rightarrow> VideoEncoderNative \<Rightarrow>
     (string + Preference \<times> EncoderInfo \<times> string) \<times> VideoEncoderNative" where
  "Configure_select env config s =
     (let codecName = cfg_codec config;
          s1 = s\<lparr>m_width := cfg_width config, m_height := cfg_height config\<rparr>;
          hwPref = (case cfg_hardwareAcceleration config of
                      None \<Rightarrow> NoPreference | Some pref \<Rightarrow> parsePreference env pref);
          encInfo = selectEncoder env codecName hwPref (m_width s1) (m_height s1);
          s2 = s1\<lparr>eng := log_call (Call_selectEncoder codecName hwPref) (eng s1)\<rparr>
      in case ei_codec encInfo of
           None \<Rightarrow>
             (let s3 = s2\<lparr>eng := log_call (Call_find_encoder_by_name codecName) (eng s2)\<rparr>
              in case find_encoder_by_name env codecName of
                   None \<Rightarrow>
                     (Inl (''No suitable encoder found for: '' @ codecName), s3\<lparr>m_codec := None\<rparr>)
                 | Some c \<Rightarrow>
                     (Inr (hwPref, encInfo, c),
                      s3\<lparr>m_codec := Some c, m_hwType := HW_None,
                         m_hwInputFormat := AV_PIX_FMT_YUV420P\<rparr>))
         | Some c \<Rightarrow>
             (Inr (hwPref, encInfo, c),
              s2\<lparr>m_codec := Some c, m_hwType := ei_hwType encInfo,
                 m_hwInputFormat := ei_inputFormat encInfo\<rparr>))"

text \<open>Lines 225 to 259: the rate control of the three bitrate modes.\<close>

definition rate_control :: "string \<Rightarrow> string \<Rightarrow> int \<Rightarrow> AVCodecContext \<Rightarrow> AVCodecContext" where
  "rate_control bitrateMode codecName bitrate c =
     (if bitrateMode = ''constant'' then
        do_writes
          ([SetField ''rc_min_rate'' (OptInt bitrate), SetField ''rc_max_rate'' (OptInt bitrate),
            SetField ''rc_buffer_size'' (OptInt (to_int32 bitrate))] @
           (if str_contains codecName ''libx264'' then [SetOpt ''nal-hrd'' (OptStr ''cbr'')]
            else if str_contains codecName ''libvpx''
            then [SetOpt ''minrate'' (OptInt bitrate), SetOpt ''maxrate'' (OptInt bitrate)]
            else []))
          (c\<lparr>cc_bit_rate := bitrate\<rparr>)
      else if bitrateMode = ''quantizer'' then
        do_writes
          ([SetField ''rc_max_rate'' (OptInt 0)] @
           (if str_contains codecName ''libx264'' \<or> str_contains codecName ''libx265''
            then [SetOpt ''crf'' (OptInt 23)]
            else if str_contains codecName ''libvpx''
            then [SetOpt ''crf'' (OptInt 30), SetField ''qmin'' (OptInt 0), SetField ''qmax'' (OptInt 63)]
            else if str_contains codecName ''av1'' then [SetOpt ''crf'' (OptInt 30)]
            else []))
          (c\<lparr>cc_bit_rate := 0\<rparr>)
      else c\<lparr>cc_bit_rate := bitrate\<rparr>)"

text \<open>Lines 288 to 308: the colour space of the request.\<close>

definition colorSpace_writes :: "ColorSpaceInit option \<Rightarrow> ctx_write list" where
  "colorSpace_writes cso =
     (case cso of
        None \<Rightarrow> []
      | Some cs \<Rightarrow>
          (case cs_primaries cs of None \<Rightarrow> []
           | Some p \<Rightarrow> [SetField ''color_primaries'' (OptStr (parsePrimaries p))]) @
          (case cs_transfer cs of None \<Rightarrow> []
           | Some t \<Rightarrow> [SetField ''color_trc'' (OptStr (parseTransfer t))]) @
          (case cs_matrix cs of None \<Rightarrow> []
           | Some m \<Rightarrow> [SetField ''colorspace'' (OptStr (parseMatrix m))]) @
          (case cs_fullRange cs of None \<Rightarrow> []
           | Some r \<Rightarrow> [SetField ''color_range''
                          (OptStr (if r then ''AVCOL_RANGE_JPEG'' else ''AVCOL_RANGE_MPEG''))]))"

text \<open>Lines 310 to 334: the accelerator device, and the shared frame pool where one is needed.\<close>

definition Configure_hw_frames ::
  "env \<Rightarrow> handle \<Rightarrow> handle \<Rightarrow> VideoEncoderNative \<Rightarrow> VideoEncoderNative" where
  "Configure_hw_frames env h dev s =
     (case av_hwframe_ctx_alloc env dev (eng s) of (fo, e1) \<Rightarrow>
        (case fo of
           None \<Rightarrow> s\<lparr>m_hwFramesCtx := None, eng := e1\<rparr>
         | Some fr \<Rightarrow>
             (case av_hwframe_ctx_init env fr e1 of (r, e2) \<Rightarrow>
                if 0 \<le> r
                then s\<lparr>m_hwFramesCtx := Some fr,
                       eng := ctx_update h (\<lambda>c. c\<lparr>cc_hw_frames_ctx := Some fr\<rparr>) (av_buffer_ref fr e2)\<rparr>
                else s\<lparr>m_hwFramesCtx := Some fr, eng := e2\<rparr>)))"

definition Configure_hw ::
  "env \<Rightarrow> EncoderInfo \<Rightarrow> handle \<Rightarrow> VideoEncoderNative \<Rightarrow> VideoEncoderNative" where
  "Configure_hw env encInfo h s =
     (if m_hwType s \<noteq> HW_None then
        (case createHWDeviceContext env (m_hwType s) (eng s) of (devo, e1) \<Rightarrow>
           (case devo of
              None \<Rightarrow> s\<lparr>m_hwDeviceCtx := None, eng := e1\<rparr>
            | Some dev \<Rightarrow>
                (let s1 = s\<lparr>m_hwDeviceCtx := Some dev,
                             eng := ctx_update h (\<lambda>c. c\<lparr>cc_hw_device_ctx := Some dev\<rparr>)
                                      (av_buffer_ref dev e1)\<rparr>
                 in if ei_requiresHWFrames encInfo then Configure_hw_frames env h dev s1 else s1)))
      else s)"

text \<open>
  Lines 196 to 359: the context is allocated and filled in. On success the result carries the
  local variables \<^verbatim>\<open>fps\<close> and \<^verbatim>\<open>latencyMode\<close>, which the opening of the codec uses again.
\<close>

definition Configure_context ::
  "env \<Rightarrow> EncoderConfig \<Rightarrow> EncoderInfo \<Rightarrow> string \<Rightarrow> VideoEncoderNative \<Rightarrow>
     (string + handle \<times> int \<times> string) \<times> VideoEncoderNative" where
  "Configure_context env config encInfo codec s =
     (case avcodec_alloc_context3 env codec (eng s) of (ho, e1) \<Rightarrow>
        (case ho of
           None \<Rightarrow> (Inl ''Failed to allocate codec context'', s\<lparr>m_codecCtx := None, eng := e1\<rparr>)
         | Some h \<Rightarrow>
             (let s1 = s\<lparr>m_codecCtx := Some h, eng := e1\<rparr>;
                  s2 = upd_ctx h (do_writes
                         [SetField ''width'' (OptInt (m_width s1)), SetField ''height'' (OptInt (m_height s1)),
                          SetField ''time_base.num'' (OptInt 1),
                          SetField ''time_base.den'' (OptInt 1000000)]) s1;
                  s3 = s2\<lparr>m_codecName := codec,
                          m_bitrate := (case cfg_bitrate config of Some b \<Rightarrow> b | None \<Rightarrow> 2000000),
                          m_bitrateMode := (case cfg_bitrateMode config of
                                             Some m \<Rightarrow> m | None \<Rightarrow> ''variable'')\<rparr>;
                  s4 = upd_ctx h (rate_control (m_bitrateMode s3) (m_codecName s3) (m_bitrate s3)) s3;
                  fps = (case cfg_framerate config of Some f \<Rightarrow> f | None \<Rightarrow> 30);
                  s5 = upd_ctx h (do_writes
                         [SetField ''gop_size'' (OptInt fps), SetField ''framerate.num'' (OptInt fps),
                          SetField ''framerate.den'' (OptInt 1), SetField ''max_b_frames'' (OptInt 0)]) s4;
                  s6 = (case cfg_alpha config of
                          None \<Rightarrow> s5 | Some alphaMode \<Rightarrow> s5\<lparr>m_alpha := (alphaMode = ''keep'')\<rparr>);
                  s7 = upd_ctx h (\<lambda>c. c\<lparr>cc_pix_fmt :=
                         (if m_hwType s6 \<noteq> HW_None \<and> m_hwInputFormat s6 \<noteq> AV_PIX_FMT_NONE
                          then m_hwInputFormat s6
                          else if m_alpha s6 \<and> str_contains (m_codecName s6) ''libvpx''
                          then AV_PIX_FMT_YUVA420P
                          else AV_PIX_FMT_YUV420P)\<rparr>) s6;
                  s8 = upd_ctx h (do_writes (colorSpace_writes (cfg_colorSpace config))) s7;
                  s9 = Configure_hw env encInfo h s8;
                  encoderName = codec;
                  s10 = (case cfg_profile config of
                           None \<Rightarrow> s9
                         | Some profile \<Rightarrow>
                             if encoderName = ''libx264'' then
                               upd_ctx h (do_writes
                                 [SetOpt ''profile''
                                    (OptStr (if profile = 66 then ''baseline''
                                             else if profile = 77 then ''main''
                                             else if profile = 100 then ''high'' else ''main''))]) s9
                             else s9);
                  s11 = (case cfg_avcFormat config of
                           None \<Rightarrow> s10 | Some format \<Rightarrow> s10\<lparr>m_avcAnnexB := (format = ''annexb'')\<rparr>);
                  latencyMode = (case cfg_latencyMode config of Some m \<Rightarrow> m | None \<Rightarrow> ''quality'');
                  s12 = upd_ctx h (configureEncoderOptions encoderName latencyMode) s11
              in (Inr (h, fps, latencyMode), s12))))"

text \<open>
  Lines 385 to 410: the per-layer bitrates (the variables \<^verbatim>\<open>br0\<close>, \<^verbatim>\<open>br1\<close>, \<^verbatim>\<open>br2\<close> of the
  two branches) and the \<^verbatim>\<open>ts-parameters\<close> string. The buffer is left uninitialised by the
  source for any other layer count, which the check of line 365 excludes.
\<close>

definition L1T2_br0 :: "int \<Rightarrow> int" where
  "L1T2_br0 bitrate = scaled_kbps bitrate (6 / 10)"

definition L1T2_br1 :: "int \<Rightarrow> int" where
  "L1T2_br1 bitrate = to_int32 (c_div bitrate 1000)"

definition L1T3_br0 :: "int \<Rightarrow> int" where
  "L1T3_br0 bitrate = scaled_kbps bitrate (25 / 100)"

definition L1T3_br1 :: "int \<Rightarrow> int" where
  "L1T3_br1 bitrate = scaled_kbps bitrate (5 / 10)"

definition L1T3_br2 :: "int \<Rightarrow> int" where
  "L1T3_br2 bitrate = to_int32 (c_div bitrate 1000)"

definition tsParams :: "int \<Rightarrow> int \<Rightarrow> string" where
  "tsParams layers bitrate =
     (if layers = 2 then
        ''ts_number_layers=2:ts_target_bitrate='' @ show_int (L1T2_br0 bitrate) @ '','' @
        show_int (L1T2_br1 bitrate) @ '':ts_rate_decimator=2,1:ts_periodicity=2:ts_layer_id=0,1''
      else if layers = 3 then
        ''ts_number_layers=3:ts_target_bitrate='' @ show_int (L1T3_br0 bitrate) @ '','' @
        show_int (L1T3_br1 bitrate) @ '','' @ show_int (L1T3_br2 bitrate) @
        '':ts_rate_decimator=4,2,1:ts_periodicity=4:ts_layer_id=0,2,1,2''
      else [])"

text \<open>Lines 361 to 429: the scalability mode.\<close>

definition svc_writes :: "string \<Rightarrow> int \<Rightarrow> int \<Rightarrow> ctx_write list" where
  "svc_writes encoderName layers bitrate =
     (if str_contains encoderName ''libvpx'' then
        [SetOpt ''lag-in-frames'' (OptStr ''0''), SetOpt ''error-resilient'' (OptStr ''1''),
         SetOpt ''auto-alt-ref'' (OptInt 0), SetOpt ''ts-parameters'' (OptStr (tsParams layers bitrate))]
      else if str_contains encoderName ''libaom'' \<or> str_contains encoderName ''av1'' then
        [SetOpt ''lag-in-frames'' (OptStr ''0''), SetOpt ''usage'' (OptStr ''realtime'')]
      else if str_contains encoderName ''libsvtav1'' then
        [SetOpt ''hierarchical-levels'' (OptStr (show_int (layers - 1)))]
      else [])"

definition Configure_scalability ::
  "EncoderConfig \<Rightarrow> string \<Rightarrow> handle \<Rightarrow> VideoEncoderNative \<Rightarrow> outcome \<times> VideoEncoderNative" where
  "Configure_scalability config encoderName h s =
     (case cfg_scalabilityMode config of
        None \<Rightarrow> (Returned, s)
      | Some svcMode \<Rightarrow>
          if \<not> isScalabilityModeSupported svcMode then
            (Threw (''Unsupported scalabilityMode: '' @ svcMode @
                    ''. Only L1T1, L1T2, L1T3 are currently supported.''), s)
          else
            (let svcConfig = parseScalabilityMode svcMode;
                 s1 = (if temporalLayers svcConfig > 1
                       then upd_ctx h (do_writes
                              (svc_writes encoderName (temporalLayers svcConfig) (m_bitrate s)))
                              (s\<lparr>m_temporalLayers := temporalLayers svcConfig\<rparr>)
                       else s)
             in (Returned, s1\<lparr>m_scalabilityMode := svcMode\<rparr>)))"

text \<open>Lines 431 to 435.\<close>

definition Configure_alpha :: "handle \<Rightarrow> VideoEncoderNative \<Rightarrow> VideoEncoderNative" where
  "Configure_alpha h s =
     (if m_alpha s \<and> str_contains (m_codecName s) ''libvpx''
      then upd_ctx h (do_writes [SetOpt ''auto-alt-ref'' (OptInt 0)]) s else s)"

text \<open>
  Lines 437 to 493: the codec is opened; when that fails for a hardware encoder and the
  preference was not "prefer hardware", the accelerator buffers are released and a software
  encoder is selected, set up and opened instead. The second \<^verbatim>\<open>avcodec_alloc_context3\<close> is
  not checked for null by the source before the context is written to.
\<close>

definition release_hw :: "VideoEncoderNative \<Rightarrow> VideoEncoderNative" where
  "release_hw s =
     (let s1 = (case m_hwDeviceCtx s of
                  None \<Rightarrow> s | Some d \<Rightarrow> s\<lparr>m_hwDeviceCtx := None, eng := av_buffer_unref d (eng s)\<rparr>)
      in case m_hwFramesCtx s1 of
           None \<Rightarrow> s1 | Some f \<Rightarrow> s1\<lparr>m_hwFramesCtx := None, eng := av_buffer_unref f (eng s1)\<rparr>)"

definition software_context ::
  "EncoderConfig \<Rightarrow> int \<Rightarrow> string \<Rightarrow> string \<Rightarrow> VideoEncoderNative \<Rightarrow> AVCodecContext \<Rightarrow> AVCodecContext" where
  "software_context config fps latencyMode codec s c =
     configureEncoderOptions codec latencyMode
       (do_writes
          [SetField ''gop_size'' (OptInt fps), SetField ''framerate.num'' (OptInt fps),
           SetField ''framerate.den'' (OptInt 1), SetField ''max_b_frames'' (OptInt 0)]
          ((do_writes
             [SetField ''width'' (OptInt (m_width s)), SetField ''height'' (OptInt (m_height s)),
              SetField ''time_base.num'' (OptInt 1), SetField ''time_base.den'' (OptInt 1000000)] c)
           \<lparr>cc_bit_rate := (case cfg_bitrate config of Some b \<Rightarrow> b | None \<Rightarrow> 2000000)\<rparr>)
        \<lparr>cc_pix_fmt := AV_PIX_FMT_YUV420P\<rparr>)"

definition Configure_fallback ::
  "env \<Rightarrow> EncoderConfig \<Rightarrow> int \<Rightarrow> string \<Rightarrow> string \<Rightarrow> VideoEncoderNative \<Rightarrow>
     outcome \<times> VideoEncoderNative" where
  "Configure_fallback env config fps latencyMode errBuf s =
     (let s1 = release_hw s;
          swInfo = selectEncoder env (cfg_codec config) PreferSoftware (m_width s1) (m_height s1);
          s2 = s1\<lparr>eng := log_call (Call_selectEncoder (cfg_codec config) PreferSoftware) (eng s1)\<rparr>
      in case ei_codec swInfo of
           None \<Rightarrow> (Threw (''Failed to open codec: '' @ errBuf), s2)
         | Some sw \<Rightarrow>
             (let s3 = s2\<lparr>m_codec := Some sw, m_hwType := HW_None,
                          m_hwInputFormat := ei_inputFormat swInfo\<rparr>
              in case avcodec_alloc_context3 env sw (eng s3) of (ho, e4) \<Rightarrow>
                   (case ho of
                      None \<Rightarrow> (NullDeref, s3\<lparr>m_codecCtx := None, eng := e4\<rparr>)
                    | Some h2 \<Rightarrow>
                        (let s5 = upd_ctx h2 (software_context config fps latencyMode sw s3)
                                    (s3\<lparr>m_codecCtx := Some h2, eng := e4\<rparr>)
                         in case avcodec_open2 env h2 (eng s5) of (ret, e6) \<Rightarrow>
                              if ret < 0 then
                                (Threw (''Failed to open codec: '' @ av_strerror env ret),
                                 s5\<lparr>m_codecCtx := None, eng := avcodec_free_context h2 e6\<rparr>)
                              else (Returned, s5\<lparr>eng := e6, m_configured := True\<rparr>)))))"

definition Configure_open ::
  "env \<Rightarrow> EncoderConfig \<Rightarrow> Preference \<Rightarrow> handle \<Rightarrow> int \<Rightarrow> string \<Rightarrow> VideoEncoderNative \<Rightarrow>
     outcome \<times> VideoEncoderNative" where
  "Configure_open env config hwPref h fps latencyMode s =
     (case avcodec_open2 env h (eng s) of (ret, e1) \<Rightarrow>
        if ret < 0 then
          (let errBuf = av_strerror env ret;
               s1 = s\<lparr>m_codecCtx := None, eng := avcodec_free_context h e1\<rparr>
           in if m_hwType s1 \<noteq> HW_None \<and> hwPref \<noteq> PreferHardware
              then Configure_fallback env config fps latencyMode errBuf s1
              else (Threw (''Failed to open codec: '' @ errBuf), s1))
        else (Returned, s\<lparr>eng := e1, m_configured := True\<rparr>))"

text \<open>The whole method; \<open>None\<close> stands for an argument that is not an object.\<close>

definition Configure ::
  "env \<Rightarrow> EncoderConfig option \<Rightarrow> VideoEncoderNative \<Rightarrow> outcome \<times> VideoEncoderNative" where
  "Configure env info s =
     (case info of
        None \<Rightarrow> (Threw ''Config must be an object'', s)
      | Some config \<Rightarrow>
          (case Configure_select env config s of
             (Inl msg, s1) \<Rightarrow> (Threw msg, s1)
           | (Inr (hwPref, encInfo, codec), s1) \<Rightarrow>
               (case Configure_context env config encInfo codec s1 of
                  (Inl msg, s2) \<Rightarrow> (Threw msg, s2)
                | (Inr (h, fps, latencyMode), s2) \<Rightarrow>
                    (case Configure_scalability config codec h s2 of
                       (Returned, s3) \<Rightarrow>
                         Configure_open env config hwPref h fps latencyMode (Configure_alpha h s3)
                     | (out, s3) \<Rightarrow> (out, s3)))))"

subsection \<open>Encode, EmitChunk, EmitError, Flush, Reset, Close\<close>

definition EmitError :: "string \<Rightarrow> VideoEncoderNative \<Rightarrow> VideoEncoderNative" where
  "EmitError message s = s\<lparr>emitted := emitted s @ [ErrorCallback message]\<rparr>"

definition EmitChunk :: "AVPacket \<Rightarrow> bool \<Rightarrow> VideoEncoderNative \<Rightarrow> VideoEncoderNative" where
  "EmitChunk packet isKeyframe s =
     (let extradata = (case m_codecCtx s of
                         None \<Rightarrow> []
                       | Some h \<Rightarrow> (case lookup_ctx h (eng s) of
                                      None \<Rightarrow> [] | Some c \<Rightarrow> cc_extradata c));
          extradataValue = (if isKeyframe \<and> extradata \<noteq> [] then Some extradata else None);
          alphaSideDataValue = (if m_alpha s \<and> pkt_alpha_side_data packet \<noteq> []
                                then Some (pkt_alpha_side_data packet) else None)
      in s\<lparr>emitted := emitted s @
            [OutputChunk (pkt_data packet) isKeyframe (pkt_pts packet) (pkt_duration packet)
               extradataValue alphaSideDataValue]\<rparr>)"

text \<open>The loop of lines 591 to 606.\<close>

function Encode_receive :: "env \<Rightarrow> handle \<Rightarrow> VideoEncoderNative \<Rightarrow> VideoEncoderNative" where
  "Encode_receive env h s =
     (case avcodec_receive_packet h (eng s) of (ret, packet, e1) \<Rightarrow>
        if ret = AVERROR_EAGAIN \<or> ret = AVERROR_EOF then s\<lparr>eng := e1\<rparr>
        else if ret < 0 then EmitError (''Encode error: '' @ av_strerror env ret) (s\<lparr>eng := e1\<rparr>)
        else Encode_receive env h (EmitChunk packet (pkt_key packet) (s\<lparr>eng := e1\<rparr>)))"
  by pat_completeness auto

lemma map_of_ctx_update:
  "map_of (map (\<lambda>(k, c). if k = h then (k, f c) else (k, c)) cs) h = map_option f (map_of cs h)"
  by (induction cs) auto

lemma receive_decreases:
  assumes "(ret, y) = avcodec_receive_packet h e" and "(pkt, e1) = y"
    and "ret \<noteq> AVERROR_EAGAIN \<and> ret \<noteq> AVERROR_EOF" and "\<not> ret < 0"
  shows "ready_len h e1 < ready_len h e"
  using assms
  by (auto simp: avcodec_receive_packet_def ready_len_def lookup_ctx_def log_call_def
        ctx_update_def map_of_ctx_update AVERROR_EINVAL_def
        split: option.splits list.splits if_splits)

termination Encode_receive
  apply (relation "measure (\<lambda>(env, h, s). ready_len h (eng s))")
   apply simp
  apply (simp add: EmitChunk_def Let_def)
  apply (erule (3) receive_decreases)
  done

declare Encode_receive.simps [simp del]

text \<open>
  \<^verbatim>\<open>Encode(frame, timestamp, forceKeyframe)\<close>; \<open>None\<close> is a frame wrapper whose frame is
  null. The scaler context, once created, is kept in \<^verbatim>\<open>swsCtx_\<close>.
\<close>

definition Encode ::
  "env \<Rightarrow> AVFrame option \<Rightarrow> int \<Rightarrow> bool \<Rightarrow> VideoEncoderNative \<Rightarrow> outcome \<times> VideoEncoderNative" where
  "Encode env src timestamp forceKeyframe s =
     (if \<not> m_configured s then (Threw ''Encoder not configured'', s)
      else case src of
        None \<Rightarrow> (Threw ''Invalid frame'', s)
      | Some srcFrame \<Rightarrow>
         (case m_codecCtx s of
            None \<Rightarrow> (NullDeref, s)
          | Some h \<Rightarrow>
             (case lookup_ctx h (eng s) of
                None \<Rightarrow> (NullDeref, s)
              | Some ctx \<Rightarrow>
                 (let targetFormat0 =
                        (if cc_pix_fmt ctx = AV_PIX_FMT_VAAPI \<or> cc_pix_fmt ctx = AV_PIX_FMT_NONE
                         then AV_PIX_FMT_YUV420P else cc_pix_fmt ctx);
                      inputHasAlpha =
                        (fr_format srcFrame = AV_PIX_FMT_RGBA \<or> fr_format srcFrame = AV_PIX_FMT_BGRA
                         \<or> fr_format srcFrame = AV_PIX_FMT_YUVA420P);
                      targetFormat =
                        (if m_alpha s \<and> inputHasAlpha \<and> targetFormat0 = AV_PIX_FMT_YUV420P
                         then AV_PIX_FMT_YUVA420P else targetFormat0);
                      frame = \<lparr>fr_format = targetFormat, fr_width = m_width s,
                               fr_height = m_height s, fr_pts = timestamp, fr_key = False,
                               fr_data = []\<rparr>
                  in if frame_get_buffer_ret env frame < 0 then
                       (Threw (''Failed to allocate frame: '' @
                               av_strerror env (frame_get_buffer_ret env frame)), s)
                     else
                       (let needs_scaling =
                              (fr_format srcFrame \<noteq> targetFormat \<or> fr_width srcFrame \<noteq> m_width s
                               \<or> fr_height srcFrame \<noteq> m_height s)
                        in if needs_scaling \<and> \<not> m_swsCtx s \<and> \<not> sws_getContext_ok env srcFrame then
                             (Threw ''Failed to create scaler context'',
                              s\<lparr>eng := log_call (Call_sws_getContext False) (eng s)\<rparr>)
                           else
                             (let s1 = (if needs_scaling \<and> \<not> m_swsCtx s
                                        then s\<lparr>m_swsCtx := True,
                                               eng := log_call (Call_sws_getContext True) (eng s)\<rparr>
                                        else s);
                                  frame1 = (if needs_scaling then convert_frame env srcFrame frame
                                            else frame\<lparr>fr_data := fr_data srcFrame\<rparr>);
                                  frame2 = (if forceKeyframe then frame1\<lparr>fr_key := True\<rparr> else frame1)
                              in case avcodec_send_frame env h (Some frame2) (eng s1) of (ret, e2) \<Rightarrow>
                                   if ret < 0 then
                                     (Returned,
                                      EmitError (''Encode error: '' @ av_strerror env ret)
                                        (s1\<lparr>eng := e2\<rparr>))
                                   else (Returned, Encode_receive env h (s1\<lparr>eng := e2\<rparr>))))))))"

text \<open>The loop of lines 652 to 656.\<close>

function Flush_receive :: "handle \<Rightarrow> VideoEncoderNative \<Rightarrow> VideoEncoderNative" where
  "Flush_receive h s =
     (case avcodec_receive_packet h (eng s) of (ret, packet, e1) \<Rightarrow>
        if 0 \<le> ret then Flush_receive h (EmitChunk packet (pkt_key packet) (s\<lparr>eng := e1\<rparr>))
        else s\<lparr>eng := e1\<rparr>)"
  by pat_completeness auto

lemma receive_decreases_nonneg:
  assumes "(ret, y) = avcodec_receive_packet h e" and "(pkt, e1) = y" and "0 \<le> ret"
  shows "ready_len h e1 < ready_len h e"
  using assms
  by (auto simp: avcodec_receive_packet_def ready_len_def lookup_ctx_def log_call_def
        ctx_update_def map_of_ctx_update AVERROR_EINVAL_def AVERROR_EAGAIN_def AVERROR_EOF_def
        split: option.splits list.splits if_splits)

termination Flush_receive
  apply (relation "measure (\<lambda>(h, s). ready_len h (eng s))")
   apply simp
  apply (simp add: EmitChunk_def Let_def)
  apply (erule (2) receive_decreases_nonneg)
  done

declare Flush_receive.simps [simp del]

text \<open>\<^verbatim>\<open>Flush(callback)\<close>: the result of sending the null frame is not looked at.\<close>

definition Flush :: "env \<Rightarrow> VideoEncoderNative \<Rightarrow> outcome \<times> VideoEncoderNative" where
  "Flush env s =
     (let s1 = (case m_codecCtx s of
                  None \<Rightarrow> s
                | Some h \<Rightarrow>
                    if m_configured s
                    then Flush_receive h (s\<lparr>eng := snd (avcodec_send_frame env h None (eng s))\<rparr>)
                    else s)
      in (Returned, s1\<lparr>emitted := emitted s1 @ [FlushCallback]\<rparr>))"

definition Reset :: "env \<Rightarrow> VideoEncoderNative \<Rightarrow> outcome \<times> VideoEncoderNative" where
  "Reset env s =
     (case m_codecCtx s of
        None \<Rightarrow> (Returned, s)
      | Some h \<Rightarrow> (Returned, s\<lparr>eng := avcodec_flush_buffers env h (eng s)\<rparr>))"

definition Close :: "VideoEncoderNative \<Rightarrow> outcome \<times> VideoEncoderNative" where
  "Close s =
     (let s1 = (if m_swsCtx s
                then s\<lparr>m_swsCtx := False, eng := log_call Call_sws_freeContext (eng s)\<rparr> else s);
          s2 = (case m_hwFramesCtx s1 of
                  None \<Rightarrow> s1
                | Some f \<Rightarrow> s1\<lparr>m_hwFramesCtx := None, eng := av_buffer_unref f (eng s1)\<rparr>);
          s3 = (case m_hwDeviceCtx s2 of
                  None \<Rightarrow> s2
                | Some d \<Rightarrow> s2\<lparr>m_hwDeviceCtx := None, eng := av_buffer_unref d (eng s2)\<rparr>);
          s4 = (case m_codecCtx s3 of
                  None \<Rightarrow> s3
                | Some h \<Rightarrow> s3\<lparr>m_codecCtx := None, eng := avcodec_free_context h (eng s3)\<rparr>)
      in (Returned, s4\<lparr>m_configured := False\<rparr>))"

section \<open>The JavaScript wrappers\<close>

datatype CodecState = State_unconfigured | State_configured | State_closed

text \<open>
  A thrown exception: a \<^verbatim>\<open>DOMException\<close> with message and name, a \<^verbatim>\<open>TypeError\<close>, or the
  error a native method threw.
\<close>

datatype js_error = DOMException string string | TypeError string | NativeError string

subsection \<open>AudioDecoder.ts\<close>

record AudioDecoderConfig =
  adc_codec :: string
  adc_sampleRate :: int
  adc_numberOfChannels :: int
  adc_description :: "nat list option"

record EncodedAudioChunk =
  eac_key :: bool
  eac_timestamp :: int
  eac_duration :: "int option"
  eac_data :: "nat list"

text \<open>The arguments with which the native decoder calls \<^verbatim>\<open>_onData\<close>.\<close>

record AudioOutput =
  ao_buffer :: "nat list"
  ao_format :: string
  ao_sampleRate :: int
  ao_numberOfFrames :: int
  ao_numberOfChannels :: int
  ao_timestamp :: int

datatype native_callback = OnData AudioOutput | OnError string

text \<open>
  The native class \<^verbatim>\<open>AudioDecoderNative\<close> (native/audio.cpp, not among the sources) as a
  parameter: what each of its methods does to its own state \<open>'n\<close>, which of the two callbacks
  it invokes during the call and in which order, and, for \<^verbatim>\<open>configure\<close>, whether it throws.
  \<^verbatim>\<open>flush\<close> also yields the argument it passes to the completion callback.
\<close>

record 'n AudioDecoderNative =
  adn_configure :: "string \<Rightarrow> int \<Rightarrow> int \<Rightarrow> nat list option \<Rightarrow> 'n \<Rightarrow> string option \<times> 'n"
  adn_decode :: "nat list \<Rightarrow> bool \<Rightarrow> int \<Rightarrow> int \<Rightarrow> 'n \<Rightarrow> native_callback list \<times> 'n"
  adn_flush :: "'n \<Rightarrow> native_callback list \<times> string option \<times> 'n"
  adn_reset :: "'n \<Rightarrow> 'n"
  adn_close :: "'n \<Rightarrow> 'n"

text \<open>What the application observes, in order.\<close>

datatype js_event =
    Dequeue
  | Output AudioOutput
  | OutputFailed
  | Error js_error
  | FlushResolved
  | FlushRejected js_error

text \<open>
  The fields of the class; \<open>ad_immediates\<close> holds the closures handed to \<^verbatim>\<open>setImmediate\<close>
  that have not run yet, oldest first, each with the arguments it captured.
\<close>

record 'n AudioDecoder =
  ad_native :: 'n
  ad_state :: CodecState
  ad_decodeQueueSize :: int
  ad_config :: "AudioDecoderConfig option"
  ad_immediates :: "AudioOutput list"
  ad_events :: "js_event list"

definition new_AudioDecoder :: "'n \<Rightarrow> 'n AudioDecoder" where
  "new_AudioDecoder n =
     \<lparr>ad_native = n, ad_state = State_unconfigured, ad_decodeQueueSize = 0, ad_config = None,
      ad_immediates = [], ad_events = []\<rparr>"

text \<open>\<^verbatim>\<open>_onData\<close> only schedules; \<^verbatim>\<open>_onError\<close> calls the error callback at once.\<close>

definition onData :: "AudioOutput \<Rightarrow> 'n AudioDecoder \<Rightarrow> 'n AudioDecoder" where
  "onData out d = d\<lparr>ad_immediates := ad_immediates d @ [out]\<rparr>"

definition onError :: "string \<Rightarrow> 'n AudioDecoder \<Rightarrow> 'n AudioDecoder" where
  "onError message d =
     d\<lparr>ad_events := ad_events d @ [Error (DOMException message ''EncodingError'')]\<rparr>"

fun native_calls_back :: "native_callback \<Rightarrow> 'n AudioDecoder \<Rightarrow> 'n AudioDecoder" where
  "native_calls_back (OnData out) d = onData out d"
| "native_calls_back (OnError message) d = onError message d"

text \<open>The outputs and the error messages among the callbacks of one native call, in order.\<close>

fun outputs_of :: "native_callback list \<Rightarrow> AudioOutput list" where
  "outputs_of [] = []"
| "outputs_of (OnData out # cbs) = out # outputs_of cbs"
| "outputs_of (OnError message # cbs) = outputs_of cbs"

fun errors_of :: "native_callback list \<Rightarrow> js_event list" where
  "errors_of [] = []"
| "errors_of (OnData out # cbs) = errors_of cbs"
| "errors_of (OnError message # cbs) = Error (DOMException message ''EncodingError'') # errors_of cbs"

text \<open>The checks of the \<^verbatim>\<open>AudioData\<close> constructor (AudioData.ts) on what \<^verbatim>\<open>_onData\<close> hands it.\<close>

definition AudioData_accepts :: "AudioOutput \<Rightarrow> bool" where
  "AudioData_accepts out =
     (ao_format out \<noteq> [] \<and> 0 < ao_sampleRate out \<and> 0 < ao_numberOfFrames out
      \<and> 0 < ao_numberOfChannels out)"

text \<open>
  One turn of the event loop: the oldest closure scheduled by \<^verbatim>\<open>_onData\<close> runs (lines 254
  to 274).
\<close>

definition run_immediate :: "'n AudioDecoder \<Rightarrow> 'n AudioDecoder" where
  "run_immediate d =
     (case ad_immediates d of
        [] \<Rightarrow> d
      | out # rest \<Rightarrow>
          d\<lparr>ad_immediates := rest,
            ad_decodeQueueSize := max 0 (ad_decodeQueueSize d - 1),
            ad_events := ad_events d @
              [Dequeue, if AudioData_accepts out then Output out else OutputFailed]\<rparr>)"

text \<open>
  \<^verbatim>\<open>configure\<close>; \<open>isAudioCodecSupported\<close> and \<open>getFFmpegAudioDecoder\<close> are the functions of
  codec-registry.ts (not among the sources), \<open>native_loaded\<close> whether the addon was found.
\<close>

definition ad_configure ::
  "'n AudioDecoderNative \<Rightarrow> (string \<Rightarrow> bool) \<Rightarrow> (string \<Rightarrow> string) \<Rightarrow> bool \<Rightarrow>
     AudioDecoderConfig \<Rightarrow> 'n AudioDecoder \<Rightarrow> js_error option \<times> 'n AudioDecoder" where
  "ad_configure native isAudioCodecSupported getFFmpegAudioDecoder native_loaded config d =
     (if ad_state d = State_closed then (Some (DOMException ''Decoder is closed'' ''InvalidStateError''), d)
      else if \<not> isAudioCodecSupported (adc_codec config)
      then (Some (DOMException (''Unsupported codec: '' @ adc_codec config) ''NotSupportedError''), d)
      else if \<not> native_loaded
      then (Some (DOMException ''Native addon not available'' ''NotSupportedError''), d)
      else case adn_configure native (getFFmpegAudioDecoder (adc_codec config))
                  (adc_sampleRate config) (adc_numberOfChannels config)
                  (adc_description config) (ad_native d) of
             (Some thrown, n) \<Rightarrow> (Some (NativeError thrown), d\<lparr>ad_native := n\<rparr>)
           | (None, n) \<Rightarrow>
               (None, d\<lparr>ad_native := n, ad_config := Some config, ad_state := State_configured\<rparr>))"

definition ad_decode ::
  "'n AudioDecoderNative \<Rightarrow> EncodedAudioChunk \<Rightarrow> 'n AudioDecoder \<Rightarrow>
     js_error option \<times> 'n AudioDecoder" where
  "ad_decode native chunk d =
     (if ad_state d \<noteq> State_configured
      then (Some (DOMException ''Decoder is not configured'' ''InvalidStateError''), d)
      else
        (let d1 = d\<lparr>ad_decodeQueueSize := ad_decodeQueueSize d + 1\<rparr>
         in case adn_decode native (eac_data chunk) (eac_key chunk) (eac_timestamp chunk)
                   (case eac_duration chunk of None \<Rightarrow> 0 | Some t \<Rightarrow> t) (ad_native d1) of
              (cbs, n) \<Rightarrow> (None, foldl (\<lambda>d cb. native_calls_back cb d) (d1\<lparr>ad_native := n\<rparr>) cbs)))"

text \<open>\<^verbatim>\<open>flush\<close>: the promise is rejected or resolved by the native completion callback.\<close>

definition ad_flush ::
  "'n AudioDecoderNative \<Rightarrow> 'n AudioDecoder \<Rightarrow> js_error option \<times> 'n AudioDecoder" where
  "ad_flush native d =
     (if ad_state d \<noteq> State_configured
      then (Some (DOMException ''Decoder is not configured'' ''InvalidStateError''), d)
      else case adn_flush native (ad_native d) of
             (cbs, err, n) \<Rightarrow>
               (let d1 = foldl (\<lambda>d cb. native_calls_back cb d) (d\<lparr>ad_native := n\<rparr>) cbs
                in (None,
                    d1\<lparr>ad_events := ad_events d1 @
                         [case err of
                            None \<Rightarrow> FlushResolved
                          | Some m \<Rightarrow> FlushRejected (DOMException m ''EncodingError'')]\<rparr>)))"

definition ad_reset ::
  "'n AudioDecoderNative \<Rightarrow> 'n AudioDecoder \<Rightarrow> js_error option \<times> 'n AudioDecoder" where
  "ad_reset native d =
     (if ad_state d = State_closed then (Some (DOMException ''Decoder is closed'' ''InvalidStateError''), d)
      else (None, d\<lparr>ad_native := adn_reset native (ad_native d), ad_decodeQueueSize := 0,
                    ad_state := State_unconfigured, ad_config := None\<rparr>))"

definition ad_close ::
  "'n AudioDecoderNative \<Rightarrow> 'n AudioDecoder \<Rightarrow> js_error option \<times> 'n AudioDecoder" where
  "ad_close native d =
     (if ad_state d = State_closed then (None, d)
      else (None, d\<lparr>ad_native := adn_close native (ad_native d), ad_state := State_closed,
                    ad_decodeQueueSize := 0, ad_config := None\<rparr>))"

text \<open>What can happen to a decoder, one after the other, and the run of such a sequence.\<close>

datatype ad_action =
    Do_configure AudioDecoderConfig
  | Do_decode EncodedAudioChunk
  | Do_flush
  | Do_reset
  | Do_close
  | Event_loop_turn

fun ad_step ::
  "'n AudioDecoderNative \<Rightarrow> (string \<Rightarrow> bool) \<Rightarrow> (string \<Rightarrow> string) \<Rightarrow> bool \<Rightarrow>
     'n AudioDecoder \<Rightarrow> ad_action \<Rightarrow> 'n AudioDecoder" where
  "ad_step native isSup getFF loaded d (Do_configure config) =
     snd (ad_configure native isSup getFF loaded config d)"
| "ad_step native isSup getFF loaded d (Do_decode chunk) = snd (ad_decode native chunk d)"
| "ad_step native isSup getFF loaded d Do_flush = snd (ad_flush native d)"
| "ad_step native isSup getFF loaded d Do_reset = snd (ad_reset native d)"
| "ad_step native isSup getFF loaded d Do_close = snd (ad_close native d)"
| "ad_step native isSup getFF loaded d Event_loop_turn = run_immediate d"

definition ad_run ::
  "'n AudioDecoderNative \<Rightarrow> (string \<Rightarrow> bool) \<Rightarrow> (string \<Rightarrow> string) \<Rightarrow> bool \<Rightarrow>
     'n AudioDecoder \<Rightarrow> ad_action list \<Rightarrow> 'n AudioDecoder" where
  "ad_run native isSup getFF loaded d acts = foldl (ad_step native isSup getFF loaded) d acts"

subsection \<open>VideoEncoder.ts\<close>

record VideoEncoderConfig =
  vec_codec :: string
  vec_width :: int
  vec_height :: int
  vec_bitrate :: "int option"
  vec_framerate :: "int option"
  vec_hardwareAcceleration :: "string option"
  vec_alpha :: "string option"
  vec_scalabilityMode :: "string option"
  vec_bitrateMode :: "string option"
  vec_latencyMode :: "string option"
  vec_colorSpace :: "ColorSpaceInit option"
  vec_avc_format :: "string option"
  vec_useWorkerThread :: "bool option"

text \<open>
  What the wrapper imports: the functions of codec-registry.ts (not among the sources),
  whether the addon was loaded and whether it exports \<^verbatim>\<open>VideoEncoderAsync\<close>, and the native
  class with state \<open>'n\<close>: its constructor (the argument says whether the asynchronous class is
  asked for) and its methods.
\<close>

record 'n VideoEncoder_imports =
  isVideoCodecSupported :: "string \<Rightarrow> bool"
  getFFmpegVideoCodec :: "string \<Rightarrow> string"
  parseAvcCodecString :: "string \<Rightarrow> (int \<times> int) option"
  native_loaded :: bool
  native_has_async :: bool
  native_new :: "bool \<Rightarrow> 'n"
  native_configure :: "EncoderConfig \<Rightarrow> 'n \<Rightarrow> outcome \<times> 'n"
  native_reset :: "'n \<Rightarrow> outcome \<times> 'n"
  native_close :: "'n \<Rightarrow> outcome \<times> 'n"

record 'n VideoEncoder =
  ve_native :: "'n option"
  ve_state :: CodecState
  ve_encodeQueueSize :: int
  ve_config :: "VideoEncoderConfig option"
  ve_sentDecoderConfig :: bool
  ve_useAsync :: bool
  ve_nativeCreated :: bool

definition new_VideoEncoder :: "'n VideoEncoder" where
  "new_VideoEncoder =
     \<lparr>ve_native = None, ve_state = State_unconfigured, ve_encodeQueueSize = 0, ve_config = None,
      ve_sentDecoderConfig = False, ve_useAsync = True, ve_nativeCreated = False\<rparr>"

text \<open>\<^verbatim>\<open>if (config.x) codecParams.x = config.x\<close>: a property is copied when it is truthy.\<close>

definition truthy_int :: "int option \<Rightarrow> int option" where
  "truthy_int v = (case v of None \<Rightarrow> None | Some i \<Rightarrow> if i = 0 then None else Some i)"

definition truthy_string :: "string option \<Rightarrow> string option" where
  "truthy_string v = (case v of None \<Rightarrow> None | Some t \<Rightarrow> if t = [] then None else Some t)"

definition codecParams :: "'n VideoEncoder_imports \<Rightarrow> VideoEncoderConfig \<Rightarrow> EncoderConfig" where
  "codecParams imp config =
     \<lparr>cfg_codec = getFFmpegVideoCodec imp (vec_codec config),
      cfg_width = vec_width config,
      cfg_height = vec_height config,
      cfg_hardwareAcceleration = truthy_string (vec_hardwareAcceleration config),
      cfg_bitrate = truthy_int (vec_bitrate config),
      cfg_bitrateMode = truthy_string (vec_bitrateMode config),
      cfg_framerate = truthy_int (vec_framerate config),
      cfg_alpha = truthy_string (vec_alpha config),
      cfg_colorSpace = vec_colorSpace config,
      cfg_profile = (if take 5 (vec_codec config) = ''avc1.''
                     then map_option fst (parseAvcCodecString imp (vec_codec config)) else None),
      cfg_avcFormat = (if take 5 (vec_codec config) = ''avc1.''
                       then Some (case vec_avc_format config of None \<Rightarrow> ''annexb'' | Some f \<Rightarrow> f)
                       else None),
      cfg_latencyMode = truthy_string (vec_latencyMode config),
      cfg_scalabilityMode = truthy_string (vec_scalabilityMode config)\<rparr>"

text \<open>What a call of a wrapper method ends in: nothing, a thrown exception, or a crash.\<close>

datatype js_result = Done | Throws js_error | Crashes

definition ve_configure ::
  "'n VideoEncoder_imports \<Rightarrow> VideoEncoderConfig \<Rightarrow> 'n VideoEncoder \<Rightarrow> js_result \<times> 'n VideoEncoder" where
  "ve_configure imp config v =
     (if ve_state v = State_closed
      then (Throws (DOMException ''Encoder is closed'' ''InvalidStateError''), v)
      else if \<not> isVideoCodecSupported imp (vec_codec config)
      then (Throws (DOMException (''Unsupported codec: '' @ vec_codec config) ''NotSupportedError''), v)
      else if vec_width config \<le> 0 \<or> vec_height config \<le> 0
      then (Throws (DOMException ''Invalid dimensions'' ''NotSupportedError''), v)
      else if (case truthy_string (vec_latencyMode config) of
                 None \<Rightarrow> False | Some m \<Rightarrow> m \<notin> set [''quality'', ''realtime''])
      then (Throws (DOMException
              (''Invalid latencyMode: '' @ the (vec_latencyMode config) @
               ''. Must be 'quality' or 'realtime'.'') ''TypeError''), v)
      else if (case truthy_string (vec_bitrateMode config) of
                 None \<Rightarrow> False | Some m \<Rightarrow> m \<notin> set [''constant'', ''variable'', ''quantizer''])
      then (Throws (DOMException
              (''Invalid bitrateMode: '' @ the (vec_bitrateMode config) @
               ''. Must be 'constant', 'variable', or 'quantizer'.'') ''TypeError''), v)
      else if \<not> native_loaded imp
      then (Throws (DOMException ''Native addon not available'' ''NotSupportedError''), v)
      else
        (let useAsync = (vec_useWorkerThread config \<noteq> Some False \<and> native_has_async imp);
             v1 = v\<lparr>ve_useAsync := useAsync\<rparr>;
             v2 = (if \<not> ve_nativeCreated v1
                   then v1\<lparr>ve_native := Some (native_new imp useAsync), ve_nativeCreated := True\<rparr>
                   else v1)
         in case ve_native v2 of
              None \<Rightarrow> (Throws (TypeError ''Cannot read properties of undefined''), v2)
            | Some n \<Rightarrow>
                (case native_configure imp (codecParams imp config) n of
                   (Threw msg, n1) \<Rightarrow> (Throws (NativeError msg), v2\<lparr>ve_native := Some n1\<rparr>)
                 | (NullDeref, n1) \<Rightarrow> (Crashes, v2\<lparr>ve_native := Some n1\<rparr>)
                 | (Returned, n1) \<Rightarrow>
                     (Done, v2\<lparr>ve_native := Some n1, ve_config := Some config,
                              ve_state := State_configured, ve_sentDecoderConfig := False\<rparr>))))"

definition ve_reset :: "'n VideoEncoder_imports \<Rightarrow> 'n VideoEncoder \<Rightarrow> js_result \<times> 'n VideoEncoder" where
  "ve_reset imp v =
     (if ve_state v = State_closed
      then (Throws (DOMException ''Encoder is closed'' ''InvalidStateError''), v)
      else
        (let v1 = (case ve_native v of
                     None \<Rightarrow> v | Some n \<Rightarrow> v\<lparr>ve_native := Some (snd (native_reset imp n))\<rparr>)
         in (Done, v1\<lparr>ve_encodeQueueSize := 0, ve_state := State_unconfigured,
                      ve_sentDecoderConfig := False, ve_config := None\<rparr>)))"

definition ve_close :: "'n VideoEncoder_imports \<Rightarrow> 'n VideoEncoder \<Rightarrow> js_result \<times> 'n VideoEncoder" where
  "ve_close imp v =
     (if ve_state v = State_closed then (Done, v)
      else
        (let v1 = (case ve_native v of
                     None \<Rightarrow> v | Some n \<Rightarrow> v\<lparr>ve_native := Some (snd (native_close imp n))\<rparr>)
         in (Done, v1\<lparr>ve_state := State_closed, ve_encodeQueueSize := 0, ve_config := None\<rparr>)))"

text \<open>
  The wrapper over the synchronous class of encoder.cpp, in a process whose addon does not
  export the asynchronous class.
\<close>

definition sync_imports ::
  "env \<Rightarrow> (string \<Rightarrow> bool) \<Rightarrow> (string \<Rightarrow> string) \<Rightarrow> (string \<Rightarrow> (int \<times> int) option) \<Rightarrow>
     VideoEncoderNative VideoEncoder_imports" where
  "sync_imports env isSup getFF parseAvc =
     \<lparr>isVideoCodecSupported = isSup, getFFmpegVideoCodec = getFF, parseAvcCodecString = parseAvc,
      native_loaded = True, native_has_async = False,
      native_new = (\<lambda>_. new_VideoEncoderNative new_engine),
      native_configure = (\<lambda>params. Configure env (Some params)),
      native_reset = Reset env,
      native_close = Close\<rparr>"

section \<open>The asynchronous session (async\_encoder.h)\<close>















section \<open>Sample collaborators\<close>

text \<open>
  Concrete collaborators on which the definitions above are run: a process with a VideoToolbox
  encoder for H.264 besides the software encoders, whose engine opens every context that has
  positive dimensions and turns every frame at once into one packet.
\<close>

definition sample_packet :: "AVFrame \<Rightarrow> AVPacket" where
  "sample_packet f =
     \<lparr>pkt_data = fr_data f, pkt_key = fr_key f, pkt_pts = fr_pts f, pkt_duration = 0,
      pkt_alpha_side_data = []\<rparr>"

fun bad_dimension :: "ctx_write \<Rightarrow> bool" where
  "bad_dimension (SetField name (OptInt v)) = ((name = ''width'' \<or> name = ''height'') \<and> v \<le> 0)"
| "bad_dimension _ = False"

definition sample_env :: env where
  "sample_env =
     \<lparr>parsePreference = (\<lambda>p. if p = ''prefer-hardware'' then PreferHardware
                              else if p = ''prefer-software'' then PreferSoftware else NoPreference),
      selectEncoder = (\<lambda>name pref w h.
         if name = ''h264'' \<and> pref \<noteq> PreferSoftware
         then \<lparr>ei_codec = Some ''h264_videotoolbox'', ei_hwType = VideoToolbox,
               ei_inputFormat = AV_PIX_FMT_NV12, ei_requiresHWFrames = False\<rparr>
         else if name = ''h264''
         then \<lparr>ei_codec = Some ''libx264'', ei_hwType = HW_None,
               ei_inputFormat = AV_PIX_FMT_YUV420P, ei_requiresHWFrames = False\<rparr>
         else \<lparr>ei_codec = None, ei_hwType = HW_None, ei_inputFormat = AV_PIX_FMT_NONE,
               ei_requiresHWFrames = False\<rparr>),
      find_encoder_by_name = (\<lambda>name. if name = ''libvpx'' then Some ''libvpx'' else None),
      alloc_context_ok = (\<lambda>_. True),
      createHWDeviceContext_ok = (\<lambda>_. True),
      hwframe_ctx_alloc_ok = True,
      hwframe_ctx_init_ret = 0,
      open2_ret = (\<lambda>c. if list_ex bad_dimension (cc_writes c) then AVERROR_EINVAL else 0),
      open2_extradata = (\<lambda>_. []),
      av_strerror = (\<lambda>r. if r = AVERROR_EOF then ''End of file''
                          else if r = AVERROR_EINVAL then ''Invalid argument'' else ''Error''),
      frame_get_buffer_ret = (\<lambda>_. 0),
      sws_getContext_ok = (\<lambda>_. True),
      convert_frame = (\<lambda>src dst. dst\<lparr>fr_data := fr_data src\<rparr>),
      enc_submit = (\<lambda>c f. (0, [(0, sample_packet f)], [])),
      encoder_flush_cap = (\<lambda>_. False)\<rparr>"

text \<open>The same process with a VideoToolbox whose codec cannot be opened.\<close>

definition broken_accelerator_env :: env where
  "broken_accelerator_env =
     sample_env\<lparr>open2_ret := (\<lambda>c. if cc_codec c = ''h264_videotoolbox'' then - 1 else 0)\<rparr>"

text \<open>The same again, in a build that has no software encoder for H.264.\<close>

definition hardware_only_env :: env where
  "hardware_only_env =
     broken_accelerator_env
       \<lparr>selectEncoder := (\<lambda>name pref w h.
          if name = ''h264'' \<and> pref \<noteq> PreferSoftware
          then \<lparr>ei_codec = Some ''h264_videotoolbox'', ei_hwType = VideoToolbox,
                ei_inputFormat = AV_PIX_FMT_NV12, ei_requiresHWFrames = False\<rparr>
          else \<lparr>ei_codec = None, ei_hwType = HW_None, ei_inputFormat = AV_PIX_FMT_NONE,
                ei_requiresHWFrames = False\<rparr>)\<rparr>"


definition sample_config :: "string \<Rightarrow> int \<Rightarrow> int \<Rightarrow> EncoderConfig" where
  "sample_config codec w h =
     \<lparr>cfg_codec = codec, cfg_width = w, cfg_height = h, cfg_hardwareAcceleration = None,
      cfg_bitrate = None, cfg_bitrateMode = None, cfg_framerate = None, cfg_alpha = None,
      cfg_colorSpace = None, cfg_profile = None, cfg_avcFormat = None, cfg_latencyMode = None,
      cfg_scalabilityMode = None\<rparr>"

text \<open>The session after it has been configured for VP8 at 64 by 64 in the sample process.\<close>

definition configured_sample :: VideoEncoderNative where
  "configured_sample =
     snd (Configure sample_env (Some (sample_config ''libvpx'' 64 64))
            (new_VideoEncoderNative new_engine))"

definition sample_frame :: "int \<Rightarrow> AVFrame" where
  "sample_frame ts =
     \<lparr>fr_format = AV_PIX_FMT_YUV420P, fr_width = 64, fr_height = 64, fr_pts = ts, fr_key = False,
      fr_data = [1, 2, 3]\<rparr>"

text \<open>A native audio decoder that reports an error for every chunk and has no state.\<close>

definition erring_audio_native :: "unit AudioDecoderNative" where
  "erring_audio_native =
     \<lparr>adn_configure = (\<lambda>codec rate channels extradata n. (None, n)),
      adn_decode = (\<lambda>bytes key ts dur n. ([OnError ''Decode error''], n)),
      adn_flush = (\<lambda>n. ([], None, n)),
      adn_reset = (\<lambda>n. n),
      adn_close = (\<lambda>n. n)\<rparr>"

text \<open>A native audio decoder that turns every chunk at once into one output.\<close>

definition sample_audio_output :: "int \<Rightarrow> AudioOutput" where
  "sample_audio_output ts =
     \<lparr>ao_buffer = [0], ao_format = ''f32'', ao_sampleRate = 48000, ao_numberOfFrames = 1,
      ao_numberOfChannels = 2, ao_timestamp = ts\<rparr>"

definition sample_audio_native :: "unit AudioDecoderNative" where
  "sample_audio_native =
     \<lparr>adn_configure = (\<lambda>codec rate channels extradata n. (None, n)),
      adn_decode = (\<lambda>bytes key ts dur n. ([OnData (sample_audio_output ts)], n)),
      adn_flush = (\<lambda>n. ([], None, n)),
      adn_reset = (\<lambda>n. n),
      adn_close = (\<lambda>n. n)\<rparr>"

definition sample_audio_config :: AudioDecoderConfig where
  "sample_audio_config =
     \<lparr>adc_codec = ''opus'', adc_sampleRate = 48000, adc_numberOfChannels = 2,
      adc_description = None\<rparr>"

definition sample_audio_chunk :: "int \<Rightarrow> EncodedAudioChunk" where
  "sample_audio_chunk ts =
     \<lparr>eac_key = True, eac_timestamp = ts, eac_duration = None, eac_data = [7, 7]\<rparr>"




section \<open>Properties\<close>

subsection \<open>Running the definitions on concrete inputs\<close>

text \<open>
  Evaluation by rewriting is kept call-by-value: the scrutinee of a \<open>let\<close> or \<open>case\<close> is
  evaluated before its body is looked at.
\<close>

lemma let_weak_cong: "a = b \<Longrightarrow> Let a t = Let b t"
  by simp

lemmas weak_congs = let_weak_cong prod.case_cong_weak

lemmas configure_defs =
  Configure_select_def Configure_context_def Configure_scalability_def
  Configure_alpha_def Configure_open_def Configure_fallback_def Configure_hw_def
  Configure_hw_frames_def release_hw_def software_context_def upd_ctx_def
  rate_control_def colorSpace_writes_def configureEncoderOptions_def encoder_option_writes_def
  do_writes_def svc_writes_def

lemmas engine_defs =
  avcodec_alloc_context3_def avcodec_open2_def avcodec_free_context_def av_buffer_ref_def
  av_buffer_unref_def createHWDeviceContext_def av_hwframe_ctx_alloc_def av_hwframe_ctx_init_def
  avcodec_send_frame_def avcodec_receive_packet_def avcodec_flush_buffers_def
  log_call_def ctx_update_def lookup_ctx_def blank_context_def drop_ref_def

lemmas sample_defs =
  sample_env_def broken_accelerator_env_def hardware_only_env_def sample_config_def
  sample_frame_def sample_packet_def new_VideoEncoderNative_def new_engine_def
  AVERROR_EOF_def AVERROR_EAGAIN_def AVERROR_EINVAL_def

lemmas svc_defs =
  isScalabilityModeSupported_def parseScalabilityMode_def default_ScalabilityConfig_def
  is_digit_def stoi_digit_def opt_group_def

text \<open>\<^verbatim>\<open>Configure\<close> as the sequence of its phases, where none of the first three fails.\<close>

lemma Configure_steps:
  assumes "Configure_select env config s = r1"
    and "r1 = (Inr (hwPref, encInfo, codec), s1)"
    and "Configure_context env config encInfo codec s1 = r2"
    and "r2 = (Inr (h, fps, lm), s2)"
    and "Configure_scalability config codec h s2 = r3"
    and "r3 = (Returned, s3)"
    and "Configure_alpha h s3 = s4"
    and "Configure_open env config hwPref h fps lm s4 = r"
  shows "Configure env (Some config) s = r"
  using assms by (simp add: Configure_def)

lemma configure_sample:
  "Configure sample_env (Some (sample_config ''libvpx'' 64 64)) (new_VideoEncoderNative new_engine) =
     (Returned,
      \<lparr>m_codecCtx = Some 0, m_codec = Some ''libvpx'', m_swsCtx = False, m_hwType = HW_None,
       m_hwDeviceCtx = None, m_hwFramesCtx = None, m_hwInputFormat = AV_PIX_FMT_YUV420P,
       m_configured = True, m_avcAnnexB = True, m_width = 64, m_height = 64,
       m_bitrateMode = ''variable'', m_codecName = ''libvpx'', m_bitrate = 2000000,
       m_alpha = False, m_scalabilityMode = [], m_temporalLayers = 1,
       eng =
         \<lparr>next_handle = Suc 0,
          contexts =
            [(0, \<lparr>cc_codec = ''libvpx'', cc_bit_rate = 2000000, cc_pix_fmt = AV_PIX_FMT_YUV420P,
                  cc_writes =
                    [SetField ''width'' (OptInt 64), SetField ''height'' (OptInt 64),
                     SetField ''time_base.num'' (OptInt 1),
                     SetField ''time_base.den'' (OptInt 1000000),
                     SetField ''gop_size'' (OptInt 30), SetField ''framerate.num'' (OptInt 30),
                     SetField ''framerate.den'' (OptInt 1), SetField ''max_b_frames'' (OptInt 0),
                     SetOpt ''crf'' (OptInt 10), SetOpt ''b'' (OptInt 2000000),
                     SetOpt ''cpu-used'' (OptInt 4)],
                  cc_extradata = [], cc_hw_device_ctx = None, cc_hw_frames_ctx = None,
                  cc_opened = True, cc_ready = [], cc_held = [], cc_draining = False\<rparr>)],
          buffer_refs = [],
          calls =
            [Call_selectEncoder ''libvpx'' NoPreference, Call_find_encoder_by_name ''libvpx'',
             Call_alloc_context3 ''libvpx'' (Some 0), Call_open2 0 0]\<rparr>,
       emitted = []\<rparr>)"
  apply (subst Configure_steps)
          apply (simp add: configure_defs engine_defs sample_defs Let_def cong: weak_congs)
         apply (rule refl)
        apply (simp add: configure_defs engine_defs sample_defs Let_def cong: weak_congs)
       apply (rule refl)
      apply (simp add: configure_defs engine_defs sample_defs svc_defs Let_def cong: weak_congs)
     apply (rule refl)
    apply (simp add: configure_defs engine_defs sample_defs Let_def cong: weak_congs)
   apply (simp add: configure_defs engine_defs sample_defs Let_def cong: weak_congs)
  apply simp
  done

lemmas configured_sample_eq = configured_sample_def [unfolded configure_sample snd_conv]



subsection \<open>The pending counter of the audio decoder\<close>

lemma callbacks_fold:
  "foldl (\<lambda>d cb. native_calls_back cb d) d cbs =
     d\<lparr>ad_immediates := ad_immediates d @ outputs_of cbs,
       ad_events := ad_events d @ errors_of cbs\<rparr>"
proof (induction cbs arbitrary: d)
  case Nil
  then show ?case by simp
next
  case (Cons cb cbs)
  then show ?case by (cases cb) (simp_all add: onData_def onError_def)
qed

lemma run_immediate_nonneg:
  "0 \<le> ad_decodeQueueSize d \<Longrightarrow> 0 \<le> ad_decodeQueueSize (run_immediate d)"
  by (simp add: run_immediate_def split: list.splits)

lemma ad_step_nonneg:
  "0 \<le> ad_decodeQueueSize d \<Longrightarrow> 0 \<le> ad_decodeQueueSize (ad_step native isSup getFF loaded d a)"
  by (cases a)
    (auto simp: ad_configure_def ad_decode_def ad_flush_def ad_reset_def ad_close_def
      callbacks_fold run_immediate_nonneg Let_def split: prod.splits option.splits)

lemma ad_run_nonneg:
  "0 \<le> ad_decodeQueueSize d \<Longrightarrow> 0 \<le> ad_decodeQueueSize (ad_run native isSup getFF loaded d acts)"
  unfolding ad_run_def
  by (induction acts arbitrary: d) (simp_all add: ad_step_nonneg)




subsection \<open>What the engine calls add to the log\<close>

lemma calls_log_call [simp]: "calls (log_call c e) = calls e @ [c]"
  by (simp add: log_call_def)

lemma calls_ctx_update [simp]: "calls (ctx_update h f e) = calls e"
  by (simp add: ctx_update_def)

lemma calls_open2 [simp]:
  "calls (snd (avcodec_open2 env h e)) = calls e @ [Call_open2 h (fst (avcodec_open2 env h e))]"
  by (simp add: avcodec_open2_def split: option.splits)

lemma calls_free_context [simp]:
  "calls (avcodec_free_context h e) = calls e @ [Call_free_context h]"
  by (simp add: avcodec_free_context_def split: option.splits)

lemma calls_alloc_context3 [simp]:
  "calls (snd (avcodec_alloc_context3 env c e)) =
     calls e @ [Call_alloc_context3 c (fst (avcodec_alloc_context3 env c e))]"
  by (simp add: avcodec_alloc_context3_def)

lemma calls_buffer_unref [simp]: "calls (av_buffer_unref b e) = calls e @ [Call_buffer_unref b]"
  by (simp add: av_buffer_unref_def)


lemma release_hw_fields [simp]:
  "m_hwDeviceCtx (release_hw s) = None" "m_hwFramesCtx (release_hw s) = None"
  "m_width (release_hw s) = m_width s" "m_height (release_hw s) = m_height s"
  "m_configured (release_hw s) = m_configured s" "m_codecCtx (release_hw s) = m_codecCtx s"
  "m_hwType (release_hw s) = m_hwType s"
  by (simp_all add: release_hw_def Let_def split: option.splits)

lemma release_hw_calls [simp]:
  "calls (eng (release_hw s)) =
     calls (eng s) @ (case m_hwDeviceCtx s of None \<Rightarrow> [] | Some d \<Rightarrow> [Call_buffer_unref d])
       @ (case m_hwFramesCtx s of None \<Rightarrow> [] | Some f \<Rightarrow> [Call_buffer_unref f])"
  by (simp add: release_hw_def Let_def split: option.splits)

lemma release_hw_buffer_refs [simp]:
  "buffer_refs (eng (release_hw s)) =
     drop_ref (m_hwFramesCtx s) (drop_ref (m_hwDeviceCtx s) (buffer_refs (eng s)))"
  by (simp add: release_hw_def Let_def av_buffer_unref_def drop_ref_def split: option.splits)

lemma open_handles_log_call [simp]: "open_handles (log_call c e) = open_handles e"
  by (simp add: open_handles_def log_call_def)

lemmas encode_defs =
  Encode_def Encode_receive.simps Flush_def Flush_receive.simps EmitChunk_def EmitError_def
  Reset_def Close_def

subsection \<open>Scalability descriptors that do not parse\<close>

lemma configure_foo:
  "(case Configure sample_env
           (Some ((sample_config ''libvpx'' 64 64)\<lparr>cfg_scalabilityMode := Some ''foo''\<rparr>))
           (new_VideoEncoderNative new_engine) of
      (out, s) \<Rightarrow> out = Returned \<and> m_configured s \<and> m_scalabilityMode s = ''foo''
                 \<and> m_temporalLayers s = 1)"
  apply (subst Configure_steps)
          apply (simp add: configure_defs engine_defs sample_defs Let_def cong: weak_congs)
         apply (rule refl)
        apply (simp add: configure_defs engine_defs sample_defs Let_def cong: weak_congs)
       apply (rule refl)
      apply (simp add: configure_defs engine_defs sample_defs svc_defs Let_def cong: weak_congs)
     apply (rule refl)
    apply (simp add: configure_defs engine_defs sample_defs Let_def cong: weak_congs)
   apply (simp add: configure_defs engine_defs sample_defs Let_def cong: weak_congs)
  apply simp
  done

text \<open>
  Claim C5 says that every descriptor outside L1T1, L1T2, L1T3 is rejected, also one that
  does not parse. The code at the descriptor \<^verbatim>\<open>"foo"\<close>: the pattern does not match, so
  \<^verbatim>\<open>parseScalabilityMode\<close> answers with its default (one spatial, one temporal layer), which
  \<^verbatim>\<open>isScalabilityModeSupported\<close> accepts; \<^verbatim>\<open>Configure\<close> returns normally, the session is
  configured as for L1T1 and records the descriptor \<^verbatim>\<open>"foo"\<close>.
\<close>

theorem unparsable_scalabilityMode_is_accepted:
  "svc_regex_match ''foo'' = None
   \<and> isScalabilityModeSupported ''foo''
   \<and> fst (Configure sample_env
           (Some ((sample_config ''libvpx'' 64 64)\<lparr>cfg_scalabilityMode := Some ''foo''\<rparr>))
           (new_VideoEncoderNative new_engine)) = Returned
   \<and> m_configured (snd (Configure sample_env
           (Some ((sample_config ''libvpx'' 64 64)\<lparr>cfg_scalabilityMode := Some ''foo''\<rparr>))
           (new_VideoEncoderNative new_engine)))
   \<and> m_scalabilityMode (snd (Configure sample_env
           (Some ((sample_config ''libvpx'' 64 64)\<lparr>cfg_scalabilityMode := Some ''foo''\<rparr>))
           (new_VideoEncoderNative new_engine))) = ''foo''
   \<and> m_temporalLayers (snd (Configure sample_env
           (Some ((sample_config ''libvpx'' 64 64)\<lparr>cfg_scalabilityMode := Some ''foo''\<rparr>))
           (new_VideoEncoderNative new_engine))) = 1"
  using configure_foo by (simp add: case_prod_unfold svc_defs)

theorem unparsable_scalabilityMode_is_accepted_witness:
  "isScalabilityModeSupported ''foo''
   \<and> fst (Configure sample_env
           (Some ((sample_config ''libvpx'' 64 64)\<lparr>cfg_scalabilityMode := Some ''foo''\<rparr>))
           (new_VideoEncoderNative new_engine)) = Returned"
  using unparsable_scalabilityMode_is_accepted by simp

subsection \<open>One engine handle per configured session\<close>

lemma reconfigure:
  "(case Configure sample_env (Some (sample_config ''libvpx'' 64 64)) configured_sample of
      (out, s) \<Rightarrow>
        out = Returned \<and> m_configured s \<and> m_codecCtx s = Some 1
        \<and> open_handles (eng s) = [0, 1]
        \<and> calls (eng s) =
            [Call_selectEncoder ''libvpx'' NoPreference, Call_find_encoder_by_name ''libvpx'',
             Call_alloc_context3 ''libvpx'' (Some 0), Call_open2 0 0,
             Call_selectEncoder ''libvpx'' NoPreference, Call_find_encoder_by_name ''libvpx'',
             Call_alloc_context3 ''libvpx'' (Some 1), Call_open2 1 0])"
  apply (subst Configure_steps)
          apply (simp add: configured_sample_eq configure_defs engine_defs sample_defs Let_def
      cong: weak_congs)
         apply (rule refl)
        apply (simp add: configure_defs engine_defs sample_defs Let_def cong: weak_congs)
       apply (rule refl)
      apply (simp add: configure_defs engine_defs sample_defs svc_defs Let_def cong: weak_congs)
     apply (rule refl)
    apply (simp add: configure_defs engine_defs sample_defs Let_def cong: weak_congs)
   apply (simp add: configure_defs engine_defs sample_defs Let_def cong: weak_congs)
  apply (simp add: open_handles_def)
  done

text \<open>
  Claim C9 says that a configured session has exactly one open engine handle, also after a
  repeated \<^verbatim>\<open>configure\<close>. The code on a session that is configured and holds the one open
  context 0: a second \<^verbatim>\<open>Configure\<close> returns normally, the session is configured with the new
  context 1, and context 0 is still allocated and open; the log of the engine has no
  \<^verbatim>\<open>avcodec_free_context\<close> for it. Line 196 overwrites \<^verbatim>\<open>codecCtx_\<close> without releasing what it
  pointed to.
\<close>

theorem reconfigure_leaks_context:
  "m_configured configured_sample
   \<and> open_handles (eng configured_sample) = [0]
   \<and> fst (Configure sample_env (Some (sample_config ''libvpx'' 64 64)) configured_sample) = Returned
   \<and> m_configured (snd (Configure sample_env (Some (sample_config ''libvpx'' 64 64)) configured_sample))
   \<and> m_codecCtx (snd (Configure sample_env (Some (sample_config ''libvpx'' 64 64)) configured_sample))
       = Some 1
   \<and> open_handles (eng (snd (Configure sample_env (Some (sample_config ''libvpx'' 64 64))
        configured_sample))) = [0, 1]
   \<and> Call_free_context 0 \<notin> set (calls (eng (snd (Configure sample_env
        (Some (sample_config ''libvpx'' 64 64)) configured_sample))))"
  using reconfigure by (simp add: case_prod_unfold configured_sample_eq open_handles_def)

theorem reconfigure_leaks_context_witness:
  "open_handles (eng (snd (Configure sample_env (Some (sample_config ''libvpx'' 64 64))
        configured_sample))) = [0, 1]"
  using reconfigure_leaks_context by simp

subsection \<open>Encoding after a flush\<close>

text \<open>
  Claim C1 says that after \<^verbatim>\<open>flush\<close> the session is still configured, that a following
  \<^verbatim>\<open>encode\<close> is accepted and produces output, and that another \<^verbatim>\<open>flush\<close> completes. The
  code on the configured sample session: a frame is encoded (one chunk), the session is flushed
  (the callback is called), and a second frame is encoded. The session is configured throughout
  and every call returns, but \<^verbatim>\<open>Flush\<close> has left the engine in draining mode, so the second
  \<^verbatim>\<open>avcodec_send_frame\<close> is answered \<^verbatim>\<open>AVERROR_EOF\<close>: the second \<^verbatim>\<open>Encode\<close> calls the error
  callback and delivers no chunk.
\<close>

theorem encode_after_flush_emits_error:
  "(case Encode sample_env (Some (sample_frame 0)) 0 False configured_sample of (out1, s1) \<Rightarrow>
    case Flush sample_env s1 of (out2, s2) \<Rightarrow>
    case Encode sample_env (Some (sample_frame 33333)) 33333 False s2 of (out3, s3) \<Rightarrow>
    case Flush sample_env s3 of (out4, s4) \<Rightarrow>
      out1 = Returned \<and> out2 = Returned \<and> out3 = Returned \<and> out4 = Returned
      \<and> m_configured s2 \<and> m_configured s3 \<and> m_configured s4
      \<and> emitted s1 = [OutputChunk [1, 2, 3] False 0 0 None None]
      \<and> emitted s2 = [OutputChunk [1, 2, 3] False 0 0 None None, FlushCallback]
      \<and> emitted s3 = [OutputChunk [1, 2, 3] False 0 0 None None, FlushCallback,
                       ErrorCallback ''Encode error: End of file'']
      \<and> emitted s4 = [OutputChunk [1, 2, 3] False 0 0 None None, FlushCallback,
                       ErrorCallback ''Encode error: End of file'', FlushCallback])"
  by (simp add: configured_sample_eq encode_defs engine_defs sample_defs Let_def cong: weak_congs)

theorem encode_after_flush_emits_error_witness:
  "emitted (snd (Encode sample_env (Some (sample_frame 33333)) 33333 False
      (snd (Flush sample_env
         (snd (Encode sample_env (Some (sample_frame 0)) 0 False configured_sample))))))
   = [OutputChunk [1, 2, 3] False 0 0 None None, FlushCallback,
      ErrorCallback ''Encode error: End of file'']"
  using encode_after_flush_emits_error by (simp add: case_prod_unfold)

subsection \<open>Zero or negative dimensions\<close>

lemma configure_zero_width:
  "(case Configure sample_env (Some (sample_config ''libvpx'' 0 64))
           (new_VideoEncoderNative new_engine) of
      (out, s) \<Rightarrow>
        out = Threw ''Failed to open codec: Invalid argument''
        \<and> calls (eng s) =
            [Call_selectEncoder ''libvpx'' NoPreference, Call_find_encoder_by_name ''libvpx'',
             Call_alloc_context3 ''libvpx'' (Some 0), Call_open2 0 AVERROR_EINVAL,
             Call_free_context 0]
        \<and> m_height s = 64 \<and> m_codec s = Some ''libvpx'' \<and> m_codecName s = ''libvpx'')"
  apply (subst Configure_steps)
          apply (simp add: configure_defs engine_defs sample_defs Let_def cong: weak_congs)
         apply (rule refl)
        apply (simp add: configure_defs engine_defs sample_defs Let_def cong: weak_congs)
       apply (rule refl)
      apply (simp add: configure_defs engine_defs sample_defs svc_defs Let_def cong: weak_congs)
     apply (rule refl)
    apply (simp add: configure_defs engine_defs sample_defs Let_def cong: weak_congs)
   apply (simp add: configure_defs engine_defs sample_defs Let_def cong: weak_congs)
  apply (simp add: AVERROR_EINVAL_def)
  done

text \<open>
  Against claim C8 as stated: the native \<^verbatim>\<open>Configure\<close> with width 0 is rejected only by the
  engine. Before that it has allocated a codec context and tried to open it, and the session
  has taken over the height, the codec and the codec name of the request.
\<close>

theorem native_configure_reaches_engine_at_zero_width:
  "cfg_width (sample_config ''libvpx'' 0 64) = 0
   \<and> fst (Configure sample_env (Some (sample_config ''libvpx'' 0 64))
           (new_VideoEncoderNative new_engine)) = Threw ''Failed to open codec: Invalid argument''
   \<and> calls (eng (snd (Configure sample_env (Some (sample_config ''libvpx'' 0 64))
           (new_VideoEncoderNative new_engine)))) =
        [Call_selectEncoder ''libvpx'' NoPreference, Call_find_encoder_by_name ''libvpx'',
         Call_alloc_context3 ''libvpx'' (Some 0), Call_open2 0 AVERROR_EINVAL, Call_free_context 0]
   \<and> m_height (snd (Configure sample_env (Some (sample_config ''libvpx'' 0 64))
           (new_VideoEncoderNative new_engine))) = 64
   \<and> m_height (new_VideoEncoderNative new_engine) = 0
   \<and> m_codec (snd (Configure sample_env (Some (sample_config ''libvpx'' 0 64))
           (new_VideoEncoderNative new_engine))) = Some ''libvpx''
   \<and> m_codec (new_VideoEncoderNative new_engine) = None"
  using configure_zero_width
  by (simp add: case_prod_unfold sample_config_def new_VideoEncoderNative_def)

text \<open>
  Claim C8, amended: the check is the wrapper's. For a request with zero or negative width or
  height \<^verbatim>\<open>VideoEncoder.configure\<close> throws before the native session is created or called,
  and leaves the encoder as it was: the exception is the one for a closed encoder or for an
  unsupported codec where one of these applies, and "Invalid dimensions" otherwise.
\<close>

theorem wrapper_rejects_bad_dimensions:
  assumes "vec_width config \<le> 0 \<or> vec_height config \<le> 0"
  shows "ve_configure imp config v =
           (Throws (if ve_state v = State_closed
                    then DOMException ''Encoder is closed'' ''InvalidStateError''
                    else if \<not> isVideoCodecSupported imp (vec_codec config)
                    then DOMException (''Unsupported codec: '' @ vec_codec config) ''NotSupportedError''
                    else DOMException ''Invalid dimensions'' ''NotSupportedError''), v)"
  using assms by (auto simp: ve_configure_def)

theorem wrapper_rejects_bad_dimensions_witness:
  "ve_configure (sync_imports sample_env (\<lambda>_. True) (\<lambda>_. ''libvpx'') (\<lambda>_. None))
     \<lparr>vec_codec = ''vp8'', vec_width = 0, vec_height = 64, vec_bitrate = None,
        vec_framerate = None, vec_hardwareAcceleration = None, vec_alpha = None,
        vec_scalabilityMode = None, vec_bitrateMode = None, vec_latencyMode = None,
        vec_colorSpace = None, vec_avc_format = None, vec_useWorkerThread = None\<rparr>
     new_VideoEncoder
   = (Throws (DOMException ''Invalid dimensions'' ''NotSupportedError''), new_VideoEncoder)"
  using wrapper_rejects_bad_dimensions
    [of "\<lparr>vec_codec = ''vp8'', vec_width = 0, vec_height = 64, vec_bitrate = None,
        vec_framerate = None, vec_hardwareAcceleration = None, vec_alpha = None,
        vec_scalabilityMode = None, vec_bitrateMode = None, vec_latencyMode = None,
        vec_colorSpace = None, vec_avc_format = None, vec_useWorkerThread = None\<rparr>"
        "sync_imports sample_env (\<lambda>_. True) (\<lambda>_. ''libvpx'') (\<lambda>_. None)"
        "new_VideoEncoder"]
  by (simp add: new_VideoEncoder_def sync_imports_def)

subsection \<open>The software retry of Configure\<close>







subsection \<open>What reset does\<close>

lemma flush_buffers_keeps_contexts:
  "map fst (contexts (avcodec_flush_buffers env h e)) = map fst (contexts e)"
  "open_handles (avcodec_flush_buffers env h e) = open_handles e"
  "calls (avcodec_flush_buffers env h e) = calls e @ [Call_flush_buffers h]"
  by (induction "contexts e" arbitrary: e)
    (auto simp: avcodec_flush_buffers_def ctx_update_def log_call_def open_handles_def
      filter_map o_def case_prod_unfold intro!: filter_cong)

text \<open>
  Against claim C4 as stated: \<^verbatim>\<open>Reset\<close> of the native session, on the configured sample
  session, returns with the session still configured and still holding its one open context;
  the engine has been asked to flush its buffers and nothing else.
\<close>

theorem reset_keeps_engine_handle:
  "m_configured configured_sample
   \<and> m_codecCtx configured_sample = Some 0
   \<and> open_handles (eng configured_sample) = [0]
   \<and> fst (Reset sample_env configured_sample) = Returned
   \<and> m_configured (snd (Reset sample_env configured_sample))
   \<and> m_codecCtx (snd (Reset sample_env configured_sample)) = Some 0
   \<and> open_handles (eng (snd (Reset sample_env configured_sample))) = [0]
   \<and> calls (eng (snd (Reset sample_env configured_sample)))
       = calls (eng configured_sample) @ [Call_flush_buffers 0]"
  by (simp add: configured_sample_eq encode_defs engine_defs sample_defs open_handles_def
      cong: weak_congs)

text \<open>
  Claim C4, amended. For a wrapper that is not closed, \<^verbatim>\<open>reset()\<close> (AudioDecoder.ts and the
  wrapper of the video encoder alike) calls the native reset, sets the pending counter to
  zero, returns the wrapper to the unconfigured state and forgets its configuration; what
  \<^verbatim>\<open>_onData\<close> has scheduled already stays scheduled. The native \<^verbatim>\<open>Reset\<close> of the video encoder
  asks the engine to flush the buffers of its context and leaves everything else as it is: the
  context stays allocated and the session's own flag stays as it was. The handle is released by
  \<^verbatim>\<open>Close\<close>.
\<close>

theorem reset_effects:
  assumes "ad_state d \<noteq> State_closed" and "ve_state v \<noteq> State_closed"
  shows
    "fst (ad_reset native d) = None
     \<and> ad_decodeQueueSize (snd (ad_reset native d)) = 0
     \<and> ad_state (snd (ad_reset native d)) = State_unconfigured
     \<and> ad_config (snd (ad_reset native d)) = None
     \<and> ad_native (snd (ad_reset native d)) = adn_reset native (ad_native d)
     \<and> ad_immediates (snd (ad_reset native d)) = ad_immediates d
     \<and> ad_events (snd (ad_reset native d)) = ad_events d
     \<and> fst (ve_reset (sync_imports env isSup getFF parseAvc) v) = Done
     \<and> ve_encodeQueueSize (snd (ve_reset (sync_imports env isSup getFF parseAvc) v)) = 0
     \<and> ve_state (snd (ve_reset (sync_imports env isSup getFF parseAvc) v)) = State_unconfigured
     \<and> ve_config (snd (ve_reset (sync_imports env isSup getFF parseAvc) v)) = None
     \<and> ve_native (snd (ve_reset (sync_imports env isSup getFF parseAvc) v))
         = map_option (\<lambda>s. snd (Reset env s)) (ve_native v)
     \<and> fst (Reset env s) = Returned
     \<and> m_codecCtx (snd (Reset env s)) = m_codecCtx s
     \<and> m_configured (snd (Reset env s)) = m_configured s
     \<and> map fst (contexts (eng (snd (Reset env s)))) = map fst (contexts (eng s))
     \<and> open_handles (eng (snd (Reset env s))) = open_handles (eng s)
     \<and> calls (eng (snd (Reset env s)))
         = calls (eng s) @ (case m_codecCtx s of None \<Rightarrow> [] | Some h \<Rightarrow> [Call_flush_buffers h])
     \<and> fst (Close s) = Returned
     \<and> m_codecCtx (snd (Close s)) = None
     \<and> \<not> m_configured (snd (Close s))
     \<and> (\<forall>h. m_codecCtx s = Some h \<longrightarrow> Call_free_context h \<in> set (calls (eng (snd (Close s)))))"
proof -
  have audio:
    "fst (ad_reset native d) = None
     \<and> ad_decodeQueueSize (snd (ad_reset native d)) = 0
     \<and> ad_state (snd (ad_reset native d)) = State_unconfigured
     \<and> ad_config (snd (ad_reset native d)) = None
     \<and> ad_native (snd (ad_reset native d)) = adn_reset native (ad_native d)
     \<and> ad_immediates (snd (ad_reset native d)) = ad_immediates d
     \<and> ad_events (snd (ad_reset native d)) = ad_events d"
    using assms(1) by (simp add: ad_reset_def)
  have video:
    "fst (ve_reset (sync_imports env isSup getFF parseAvc) v) = Done
     \<and> ve_encodeQueueSize (snd (ve_reset (sync_imports env isSup getFF parseAvc) v)) = 0
     \<and> ve_state (snd (ve_reset (sync_imports env isSup getFF parseAvc) v)) = State_unconfigured
     \<and> ve_config (snd (ve_reset (sync_imports env isSup getFF parseAvc) v)) = None
     \<and> ve_native (snd (ve_reset (sync_imports env isSup getFF parseAvc) v))
         = map_option (\<lambda>s. snd (Reset env s)) (ve_native v)"
    using assms(2) by (simp add: ve_reset_def sync_imports_def Let_def split: option.splits)
  have nat:
    "fst (Reset env s) = Returned
     \<and> m_codecCtx (snd (Reset env s)) = m_codecCtx s
     \<and> m_configured (snd (Reset env s)) = m_configured s
     \<and> map fst (contexts (eng (snd (Reset env s)))) = map fst (contexts (eng s))
     \<and> open_handles (eng (snd (Reset env s))) = open_handles (eng s)
     \<and> calls (eng (snd (Reset env s)))
         = calls (eng s) @ (case m_codecCtx s of None \<Rightarrow> [] | Some h \<Rightarrow> [Call_flush_buffers h])"
    by (simp add: Reset_def flush_buffers_keeps_contexts split: option.splits)
  have close:
    "fst (Close s) = Returned
     \<and> m_codecCtx (snd (Close s)) = None
     \<and> \<not> m_configured (snd (Close s))
     \<and> (\<forall>h. m_codecCtx s = Some h \<longrightarrow> Call_free_context h \<in> set (calls (eng (snd (Close s)))))"
    by (simp add: Close_def Let_def split: option.splits)
  from audio video nat close show ?thesis by simp
qed

theorem reset_effects_witness:
  "ad_state (ad_run sample_audio_native (\<lambda>_. True) id True (new_AudioDecoder ())
              [Do_configure sample_audio_config, Do_decode (sample_audio_chunk 0)]) = State_configured
   \<and> ad_decodeQueueSize (ad_run sample_audio_native (\<lambda>_. True) id True (new_AudioDecoder ())
              [Do_configure sample_audio_config, Do_decode (sample_audio_chunk 0)]) = 1
   \<and> ad_decodeQueueSize (ad_run sample_audio_native (\<lambda>_. True) id True (new_AudioDecoder ())
              [Do_configure sample_audio_config, Do_decode (sample_audio_chunk 0), Do_reset]) = 0
   \<and> ad_state (ad_run sample_audio_native (\<lambda>_. True) id True (new_AudioDecoder ())
              [Do_configure sample_audio_config, Do_decode (sample_audio_chunk 0), Do_reset])
       = State_unconfigured
   \<and> ad_immediates (ad_run sample_audio_native (\<lambda>_. True) id True (new_AudioDecoder ())
              [Do_configure sample_audio_config, Do_decode (sample_audio_chunk 0), Do_reset])
       = [sample_audio_output 0]
   \<and> ve_state (snd (ve_reset (sync_imports sample_env (\<lambda>_. True) id (\<lambda>_. None))
        (new_VideoEncoder\<lparr>ve_native := Some configured_sample, ve_state := State_configured,
                           ve_nativeCreated := True, ve_encodeQueueSize := 2\<rparr>))) = State_unconfigured
   \<and> ve_encodeQueueSize (snd (ve_reset (sync_imports sample_env (\<lambda>_. True) id (\<lambda>_. None))
        (new_VideoEncoder\<lparr>ve_native := Some configured_sample, ve_state := State_configured,
                           ve_nativeCreated := True, ve_encodeQueueSize := 2\<rparr>))) = 0
   \<and> m_codecCtx (snd (Reset sample_env configured_sample)) = Some 0
   \<and> m_codecCtx (snd (Close configured_sample)) = None"
  using reset_effects
    [of "ad_run sample_audio_native (\<lambda>_. True) id True (new_AudioDecoder ())
              [Do_configure sample_audio_config, Do_decode (sample_audio_chunk 0)]"
        "new_VideoEncoder\<lparr>ve_native := Some configured_sample, ve_state := State_configured,
                           ve_nativeCreated := True, ve_encodeQueueSize := 2\<rparr>"
        sample_audio_native sample_env "\<lambda>_. True" id "\<lambda>_. None" configured_sample]
  by (simp add: ad_run_def ad_configure_def ad_decode_def new_AudioDecoder_def sample_audio_native_def
      sample_audio_config_def sample_audio_chunk_def onData_def new_VideoEncoder_def
      configured_sample_eq)

subsection \<open>The pending counter, call by call\<close>

lemma ad_step_closed_zero:
  assumes "ad_state d = State_closed \<longrightarrow> ad_decodeQueueSize d = 0"
  shows "ad_state (ad_step native isSup getFF loaded d a) = State_closed
           \<longrightarrow> ad_decodeQueueSize (ad_step native isSup getFF loaded d a) = 0"
  using assms
  by (cases a)
    (auto simp: ad_configure_def ad_decode_def ad_flush_def ad_reset_def ad_close_def
      callbacks_fold run_immediate_def Let_def split: prod.splits option.splits list.splits)

lemma ad_run_closed_zero:
  assumes "ad_state d = State_closed \<longrightarrow> ad_decodeQueueSize d = 0"
  shows "ad_state (ad_run native isSup getFF loaded d acts) = State_closed
           \<longrightarrow> ad_decodeQueueSize (ad_run native isSup getFF loaded d acts) = 0"
  using assms unfolding ad_run_def
proof (induction acts arbitrary: d)
  case Nil
  then show ?case by simp
next
  case (Cons a acts)
  show ?case
    using Cons.IH [OF ad_step_closed_zero [OF Cons.prems]] by simp
qed

text \<open>
  Against claim C6 as stated: a configured decoder whose native decoder reports an error for
  the chunk. After \<^verbatim>\<open>decode\<close> and a turn of the event loop the error has been delivered,
  nothing is scheduled any more, and the counter still is 1.
\<close>

theorem error_leaves_counter_pending:
  "ad_decodeQueueSize (ad_run erring_audio_native (\<lambda>_. True) id True (new_AudioDecoder ())
       [Do_configure sample_audio_config, Do_decode (sample_audio_chunk 0), Event_loop_turn]) = 1
   \<and> ad_immediates (ad_run erring_audio_native (\<lambda>_. True) id True (new_AudioDecoder ())
       [Do_configure sample_audio_config, Do_decode (sample_audio_chunk 0), Event_loop_turn]) = []
   \<and> ad_events (ad_run erring_audio_native (\<lambda>_. True) id True (new_AudioDecoder ())
       [Do_configure sample_audio_config, Do_decode (sample_audio_chunk 0), Event_loop_turn])
       = [Error (DOMException ''Decode error'' ''EncodingError'')]"
  by (simp add: ad_run_def ad_configure_def ad_decode_def new_AudioDecoder_def
      erring_audio_native_def sample_audio_config_def sample_audio_chunk_def onError_def
      run_immediate_def)

text \<open>
  Claim C6, amended. Let \<open>d\<close> be a decoder reached from a new one by any sequence of calls and
  event-loop turns. Its counter is not negative. \<^verbatim>\<open>decode\<close> on a configured decoder adds
  exactly 1, whatever the native decoder calls back (an error callback changes nothing), and a
  rejected \<^verbatim>\<open>decode\<close> adds nothing. The turn that delivers a scheduled output takes 1 off,
  but not below zero; a turn with nothing scheduled leaves the counter alone. \<^verbatim>\<open>reset\<close> and
  \<^verbatim>\<open>close\<close> leave it at zero; \<^verbatim>\<open>configure\<close> and \<^verbatim>\<open>flush\<close> do not change it.
\<close>

theorem pending_counter_steps:
  assumes run: "d = ad_run native isSup getFF loaded (new_AudioDecoder n0) acts"
  shows "0 \<le> ad_decodeQueueSize d
       \<and> (\<forall>chunk. ad_decodeQueueSize (ad_step native isSup getFF loaded d (Do_decode chunk)) =
            (if ad_state d = State_configured then ad_decodeQueueSize d + 1
             else ad_decodeQueueSize d))
       \<and> ad_decodeQueueSize (ad_step native isSup getFF loaded d Event_loop_turn) =
            (if ad_immediates d = [] then ad_decodeQueueSize d
             else max 0 (ad_decodeQueueSize d - 1))
       \<and> length (ad_immediates (ad_step native isSup getFF loaded d Event_loop_turn)) =
            length (ad_immediates d) - 1
       \<and> ad_decodeQueueSize (ad_step native isSup getFF loaded d Do_reset) = 0
       \<and> ad_decodeQueueSize (ad_step native isSup getFF loaded d Do_close) = 0
       \<and> ad_decodeQueueSize (ad_step native isSup getFF loaded d Do_flush) = ad_decodeQueueSize d
       \<and> (\<forall>config. ad_decodeQueueSize (ad_step native isSup getFF loaded d (Do_configure config))
            = ad_decodeQueueSize d)"
proof -
  have q: "0 \<le> ad_decodeQueueSize d"
    unfolding run by (rule ad_run_nonneg) (simp add: new_AudioDecoder_def)
  have z: "ad_state d = State_closed \<longrightarrow> ad_decodeQueueSize d = 0"
    unfolding run by (rule ad_run_closed_zero) (simp add: new_AudioDecoder_def)
  have dec: "\<forall>chunk. ad_decodeQueueSize (ad_step native isSup getFF loaded d (Do_decode chunk)) =
            (if ad_state d = State_configured then ad_decodeQueueSize d + 1
             else ad_decodeQueueSize d)"
    by (simp add: ad_decode_def Let_def callbacks_fold case_prod_unfold)
  have turn: "ad_decodeQueueSize (ad_step native isSup getFF loaded d Event_loop_turn) =
            (if ad_immediates d = [] then ad_decodeQueueSize d
             else max 0 (ad_decodeQueueSize d - 1))"
    "length (ad_immediates (ad_step native isSup getFF loaded d Event_loop_turn)) =
            length (ad_immediates d) - 1"
    by (simp_all add: run_immediate_def split: list.splits)
  have rc: "ad_decodeQueueSize (ad_step native isSup getFF loaded d Do_reset) = 0"
    "ad_decodeQueueSize (ad_step native isSup getFF loaded d Do_close) = 0"
    using z by (simp_all add: ad_reset_def ad_close_def)
  have fl: "ad_decodeQueueSize (ad_step native isSup getFF loaded d Do_flush) = ad_decodeQueueSize d"
    by (simp add: ad_flush_def Let_def callbacks_fold case_prod_unfold)
  have cf: "\<forall>config. ad_decodeQueueSize (ad_step native isSup getFF loaded d (Do_configure config))
            = ad_decodeQueueSize d"
    by (simp add: ad_configure_def case_prod_unfold split: option.splits)
  from q dec turn rc fl cf show ?thesis by simp
qed

theorem pending_counter_steps_witness:
  "ad_decodeQueueSize (ad_run sample_audio_native (\<lambda>_. True) id True (new_AudioDecoder ())
       [Do_configure sample_audio_config, Do_decode (sample_audio_chunk 0)]) = 1
   \<and> ad_decodeQueueSize (ad_step sample_audio_native (\<lambda>_. True) id True
        (ad_run sample_audio_native (\<lambda>_. True) id True (new_AudioDecoder ())
           [Do_configure sample_audio_config, Do_decode (sample_audio_chunk 0)])
        (Do_decode (sample_audio_chunk 1))) = 2
   \<and> ad_decodeQueueSize (ad_step sample_audio_native (\<lambda>_. True) id True
        (ad_run sample_audio_native (\<lambda>_. True) id True (new_AudioDecoder ())
           [Do_configure sample_audio_config, Do_decode (sample_audio_chunk 0)])
        Event_loop_turn) = 0
   \<and> ad_decodeQueueSize (ad_step sample_audio_native (\<lambda>_. True) id True
        (ad_run sample_audio_native (\<lambda>_. True) id True (new_AudioDecoder ())
           [Do_configure sample_audio_config, Do_decode (sample_audio_chunk 0)])
        Do_close) = 0"
  using pending_counter_steps
    [of "ad_run sample_audio_native (\<lambda>_. True) id True (new_AudioDecoder ())
           [Do_configure sample_audio_config, Do_decode (sample_audio_chunk 0)]"
        sample_audio_native "\<lambda>_. True" id True "()"
        "[Do_configure sample_audio_config, Do_decode (sample_audio_chunk 0)]"]
  by (simp add: ad_run_def ad_configure_def ad_decode_def new_AudioDecoder_def
      sample_audio_native_def sample_audio_config_def sample_audio_chunk_def onData_def
      run_immediate_def)

subsection \<open>The order of delivery of the asynchronous session\<close>










subsection \<open>Rounding to a double\<close>





















end
